theory Spec2Isabelle
  imports Complex_Main
begin

section \<open>The procedural house-geometry generator of app.py\<close>

text \<open>
  A Python float is modelled by the real it denotes and float arithmetic by exact
  arithmetic: rounding, infinities and nan are left out. The layout templates only hold
  multiples of one half, on which the float arithmetic of the source is exact, so the
  comparisons with the tolerance 0.1 are those of the source on the templates. The numbers
  of the templates are small literals and are read as reals. An int that is passed in, the
  area argument or a number of the structured description, is an \<open>int\<close>: where the
  source puts it next to a float, the conversion is a step of the model, since it can raise.
  A template room is the dict literal of the source, field by field.
\<close>

record room =
  rm_name :: string
  rm_x :: real
  rm_y :: real
  rm_w :: real
  rm_d :: real
  rm_h :: real
  rm_color :: "nat list"

subsection \<open>The layout templates of \<open>generate_realistic_house_glb\<close>\<close>

definition rooms_1bhk :: "room list" where
  "rooms_1bhk = [
    \<lparr>rm_name = ''Living Room'', rm_x = 0, rm_y = 0, rm_w = 4, rm_d = 5, rm_h = 3, rm_color = [150, 200, 150, 255]\<rparr>,
    \<lparr>rm_name = ''Bedroom'', rm_x = 4.5, rm_y = 0, rm_w = 4, rm_d = 4, rm_h = 3, rm_color = [200, 150, 150, 255]\<rparr>,
    \<lparr>rm_name = ''Kitchen'', rm_x = 0, rm_y = 5.5, rm_w = 3, rm_d = 3, rm_h = 3, rm_color = [150, 150, 200, 255]\<rparr>,
    \<lparr>rm_name = ''Bathroom'', rm_x = 4.5, rm_y = 4.5, rm_w = 2, rm_d = 2, rm_h = 3, rm_color = [200, 200, 150, 255]\<rparr>]"

definition rooms_2bhk :: "room list" where
  "rooms_2bhk = [
    \<lparr>rm_name = ''Living Room'', rm_x = 0, rm_y = 0, rm_w = 5, rm_d = 4, rm_h = 3, rm_color = [150, 200, 150, 255]\<rparr>,
    \<lparr>rm_name = ''Bedroom 1'', rm_x = 5.5, rm_y = 0, rm_w = 4, rm_d = 4, rm_h = 3, rm_color = [200, 150, 150, 255]\<rparr>,
    \<lparr>rm_name = ''Bedroom 2'', rm_x = 10, rm_y = 0, rm_w = 3.5, rm_d = 4, rm_h = 3, rm_color = [200, 150, 150, 255]\<rparr>,
    \<lparr>rm_name = ''Kitchen'', rm_x = 0, rm_y = 4.5, rm_w = 3, rm_d = 3.5, rm_h = 3, rm_color = [150, 150, 200, 255]\<rparr>,
    \<lparr>rm_name = ''Bathroom'', rm_x = 3.5, rm_y = 4.5, rm_w = 2, rm_d = 2.5, rm_h = 3, rm_color = [200, 200, 150, 255]\<rparr>,
    \<lparr>rm_name = ''Dining'', rm_x = 6, rm_y = 4.5, rm_w = 3, rm_d = 3, rm_h = 3, rm_color = [180, 150, 200, 255]\<rparr>]"

definition rooms_3bhk :: "room list" where
  "rooms_3bhk = [
    \<lparr>rm_name = ''Living Room'', rm_x = 0, rm_y = 0, rm_w = 5, rm_d = 5, rm_h = 3, rm_color = [150, 200, 150, 255]\<rparr>,
    \<lparr>rm_name = ''Bedroom 1'', rm_x = 5.5, rm_y = 0, rm_w = 4, rm_d = 4, rm_h = 3, rm_color = [200, 150, 150, 255]\<rparr>,
    \<lparr>rm_name = ''Bedroom 2'', rm_x = 10, rm_y = 0, rm_w = 3.5, rm_d = 4, rm_h = 3, rm_color = [200, 150, 150, 255]\<rparr>,
    \<lparr>rm_name = ''Bedroom 3'', rm_x = 0, rm_y = 5.5, rm_w = 3.5, rm_d = 4, rm_h = 3, rm_color = [200, 150, 150, 255]\<rparr>,
    \<lparr>rm_name = ''Kitchen'', rm_x = 4, rm_y = 5.5, rm_w = 3, rm_d = 3, rm_h = 3, rm_color = [150, 150, 200, 255]\<rparr>,
    \<lparr>rm_name = ''Bathroom 1'', rm_x = 7.5, rm_y = 5.5, rm_w = 2, rm_d = 2, rm_h = 3, rm_color = [200, 200, 150, 255]\<rparr>,
    \<lparr>rm_name = ''Bathroom 2'', rm_x = 10, rm_y = 5.5, rm_w = 2, rm_d = 2, rm_h = 3, rm_color = [200, 200, 150, 255]\<rparr>,
    \<lparr>rm_name = ''Dining'', rm_x = 4, rm_y = 9, rm_w = 3.5, rm_d = 3, rm_h = 3, rm_color = [180, 150, 200, 255]\<rparr>]"

definition rooms_4bhk :: "room list" where
  "rooms_4bhk = [
    \<lparr>rm_name = ''Living Room'', rm_x = 0, rm_y = 0, rm_w = 6, rm_d = 5, rm_h = 3, rm_color = [150, 200, 150, 255]\<rparr>,
    \<lparr>rm_name = ''Bedroom 1'', rm_x = 6.5, rm_y = 0, rm_w = 4, rm_d = 4.5, rm_h = 3, rm_color = [200, 150, 150, 255]\<rparr>,
    \<lparr>rm_name = ''Bedroom 2'', rm_x = 11, rm_y = 0, rm_w = 4, rm_d = 4, rm_h = 3, rm_color = [200, 150, 150, 255]\<rparr>,
    \<lparr>rm_name = ''Bedroom 3'', rm_x = 0, rm_y = 5.5, rm_w = 4, rm_d = 4, rm_h = 3, rm_color = [200, 150, 150, 255]\<rparr>,
    \<lparr>rm_name = ''Bedroom 4'', rm_x = 4.5, rm_y = 5.5, rm_w = 3.5, rm_d = 4, rm_h = 3, rm_color = [200, 150, 150, 255]\<rparr>,
    \<lparr>rm_name = ''Kitchen'', rm_x = 8.5, rm_y = 5.5, rm_w = 3.5, rm_d = 3, rm_h = 3, rm_color = [150, 150, 200, 255]\<rparr>,
    \<lparr>rm_name = ''Bathroom 1'', rm_x = 12.5, rm_y = 5.5, rm_w = 2, rm_d = 2, rm_h = 3, rm_color = [200, 200, 150, 255]\<rparr>,
    \<lparr>rm_name = ''Bathroom 2'', rm_x = 0, rm_y = 10, rm_w = 2, rm_d = 2, rm_h = 3, rm_color = [200, 200, 150, 255]\<rparr>,
    \<lparr>rm_name = ''Dining'', rm_x = 2.5, rm_y = 10, rm_w = 4, rm_d = 3.5, rm_h = 3, rm_color = [180, 150, 200, 255]\<rparr>]"

text \<open>
  The \<open>if bhk == 1 ... elif bhk == 2 ... elif bhk == 3 ... else\<close> chain that picks the
  rooms of the 3D scene.
\<close>

definition house_rooms :: "int \<Rightarrow> room list" where
  "house_rooms bhk =
     (if bhk = 1 then rooms_1bhk
      else if bhk = 2 then rooms_2bhk
      else if bhk = 3 then rooms_3bhk
      else rooms_4bhk)"

subsection \<open>The floor-plan templates of \<open>generate_svg_floor_plan\<close>\<close>

record plan_room =
  plan_name :: string
  plan_x :: int
  plan_y :: int
  plan_w :: int
  plan_h :: int

definition plan_1bhk :: "plan_room list" where
  "plan_1bhk = [
    \<lparr>plan_name = ''Living'', plan_x = 50, plan_y = 50, plan_w = 300, plan_h = 250\<rparr>,
    \<lparr>plan_name = ''Bedroom'', plan_x = 400, plan_y = 50, plan_w = 300, plan_h = 250\<rparr>,
    \<lparr>plan_name = ''Kitchen'', plan_x = 50, plan_y = 350, plan_w = 200, plan_h = 150\<rparr>,
    \<lparr>plan_name = ''Bathroom'', plan_x = 300, plan_y = 350, plan_w = 150, plan_h = 150\<rparr>]"

definition plan_2bhk :: "plan_room list" where
  "plan_2bhk = [
    \<lparr>plan_name = ''Living'', plan_x = 50, plan_y = 50, plan_w = 250, plan_h = 200\<rparr>,
    \<lparr>plan_name = ''Bedroom 1'', plan_x = 350, plan_y = 50, plan_w = 200, plan_h = 200\<rparr>,
    \<lparr>plan_name = ''Bedroom 2'', plan_x = 600, plan_y = 50, plan_w = 200, plan_h = 200\<rparr>,
    \<lparr>plan_name = ''Kitchen'', plan_x = 50, plan_y = 300, plan_w = 180, plan_h = 150\<rparr>,
    \<lparr>plan_name = ''Bathroom'', plan_x = 280, plan_y = 300, plan_w = 150, plan_h = 150\<rparr>]"

definition plan_3bhk :: "plan_room list" where
  "plan_3bhk = [
    \<lparr>plan_name = ''Living'', plan_x = 50, plan_y = 50, plan_w = 220, plan_h = 180\<rparr>,
    \<lparr>plan_name = ''Bedroom 1'', plan_x = 320, plan_y = 50, plan_w = 180, plan_h = 180\<rparr>,
    \<lparr>plan_name = ''Bedroom 2'', plan_x = 550, plan_y = 50, plan_w = 180, plan_h = 180\<rparr>,
    \<lparr>plan_name = ''Bedroom 3'', plan_x = 50, plan_y = 280, plan_w = 180, plan_h = 180\<rparr>,
    \<lparr>plan_name = ''Kitchen'', plan_x = 280, plan_y = 280, plan_w = 150, plan_h = 130\<rparr>,
    \<lparr>plan_name = ''Bath 1'', plan_x = 480, plan_y = 280, plan_w = 120, plan_h = 130\<rparr>]"

definition plan_4bhk :: "plan_room list" where
  "plan_4bhk = [
    \<lparr>plan_name = ''Living'', plan_x = 50, plan_y = 50, plan_w = 200, plan_h = 150\<rparr>,
    \<lparr>plan_name = ''Dining'', plan_x = 300, plan_y = 50, plan_w = 150, plan_h = 150\<rparr>,
    \<lparr>plan_name = ''BR 1'', plan_x = 500, plan_y = 50, plan_w = 150, plan_h = 150\<rparr>,
    \<lparr>plan_name = ''BR 2'', plan_x = 700, plan_y = 50, plan_w = 150, plan_h = 150\<rparr>,
    \<lparr>plan_name = ''BR 3'', plan_x = 50, plan_y = 250, plan_w = 150, plan_h = 150\<rparr>,
    \<lparr>plan_name = ''Kitchen'', plan_x = 250, plan_y = 250, plan_w = 150, plan_h = 130\<rparr>]"

definition svg_rooms :: "int \<Rightarrow> plan_room list" where
  "svg_rooms bhk =
     (if bhk = 1 then plan_1bhk
      else if bhk = 2 then plan_2bhk
      else if bhk = 3 then plan_3bhk
      else plan_4bhk)"

text \<open>The decimal text of an integer, as an f-string prints it.\<close>

fun digits :: "nat \<Rightarrow> string" where
  "digits n =
     (if n < 10 then [''0123456789'' ! n]
      else digits (n div 10) @ [''0123456789'' ! (n mod 10)])"

declare digits.simps [simp del]

definition str_int :: "int \<Rightarrow> string" where
  "str_int i = (if i < 0 then CHR ''-'' # digits (nat (- i)) else digits (nat i))"

definition svg_rect :: "plan_room \<Rightarrow> string" where
  "svg_rect room =
     ''<rect x=\"'' @ str_int (plan_x room) @ ''\" y=\"'' @ str_int (plan_y room) @
     ''\" width=\"'' @ str_int (plan_w room) @ ''\" height=\"'' @ str_int (plan_h room) @
     ''\" fill=\"white\" stroke=\"#333\" stroke-width=\"2\"/>''"

definition svg_text :: "plan_room \<Rightarrow> string" where
  "svg_text room =
     (let text_x = plan_x room + plan_w room div 2;
          text_y = plan_y room + plan_h room div 2
      in ''<text x=\"'' @ str_int text_x @ ''\" y=\"'' @ str_int text_y @
         ''\" text-anchor=\"middle\" font-size=\"14\" fill=\"#333\">'' @ plan_name room @
         ''</text>'')"

definition generate_svg_floor_plan :: "int \<Rightarrow> real \<Rightarrow> string" where
  "generate_svg_floor_plan bhk sqft =
     (let width = 800;
          height = 600;
          rooms = svg_rooms bhk;
          svg = ''<svg width=\"'' @ str_int width @ ''\" height=\"'' @ str_int height @
                ''\" xmlns=\"http://www.w3.org/2000/svg\">'';
          svg = svg @ ''<rect width=\"100%\" height=\"100%\" fill=\"#f5f5f5\"/>'';
          svg = foldl (\<lambda>svg room. svg @ svg_rect room @ svg_text room) svg rooms
      in svg @ ''</svg>'')"

subsection \<open>Scenes of coloured primitives\<close>

text \<open>
  A mesh is a primitive of \<open>trimesh.creation\<close> (a box by its three extents, a cylinder
  or a cone by radius and height), the offset added to its vertices and its flat colour.
  A scene is the list of the nodes of its graph, each a node name and the mesh the node
  shows, in the order in which the names were first added. The exported bytes are
  represented by the scene.
\<close>

datatype shape = Box real real real | Cylinder real real | Cone real real

record mesh =
  shape_of :: shape
  offset :: "real \<times> real \<times> real"
  vertex_colors :: "nat list"

type_synonym node = "string \<times> mesh"
type_synonym scene = "node list"

text \<open>
  \<open>scene.add_geometry(mesh, node_name=name)\<close>. The graph of a scene keeps one node per
  name: under a name the scene already has, the call points that node to the new mesh and
  the node keeps its place; under a new name it adds a node at the end. (The mesh that
  lost its node stays in the geometry store of the scene, which the model leaves out.)
\<close>

fun add_geometry :: "scene \<Rightarrow> node \<Rightarrow> scene" where
  "add_geometry [] n = [n]"
| "add_geometry (m # scene) n =
     (if fst m = fst n then n # scene else m # add_geometry scene n)"

text \<open>A run of \<open>add_geometry\<close> calls, in order.\<close>

definition add_all :: "scene \<Rightarrow> node list \<Rightarrow> scene" where
  "add_all scene ns = foldl add_geometry scene ns"

subsection \<open>Exceptions and numbers\<close>

text \<open>
  A function that may raise returns the exception on the left and its value on the
  right; \<open>and_then\<close> runs the rest of a block on the value.
\<close>

datatype py_error = AttributeError | TypeError | ValueError | OverflowError

definition and_then :: "py_error + 'a \<Rightarrow> ('a \<Rightarrow> py_error + 'b) \<Rightarrow> py_error + 'b" where
  "and_then m f = (case m of Inl e \<Rightarrow> Inl e | Inr v \<Rightarrow> f v)"

text \<open>
  An int operand of \<open>*\<close>, \<open>/\<close> or \<open>+\<close> whose other operand is a float is first converted
  to a float, and the conversion raises \<open>OverflowError\<close> when the int rounds beyond the
  largest float, which is the case from \<open>2 ^ 1024 - 2 ^ 970\<close> on, in either direction.
\<close>

definition float_limit :: int where
  "float_limit = 2 ^ 1024 - 2 ^ 970"

definition float_of_int :: "int \<Rightarrow> py_error + real" where
  "float_of_int n =
     (if - float_limit < n \<and> n < float_limit then Inr (real_of_int n) else Inl OverflowError)"

text \<open>
  The area argument \<open>sqft\<close>: an int, which is what the routes pass
  (\<open>int(data.get('sqft', 1000))\<close>), or a float; \<open>py_float\<close> is its conversion as an
  operand of a float.
\<close>

datatype py_num = PyInt int | PyFloat real

definition py_float :: "py_num \<Rightarrow> py_error + real" where
  "py_float v = (case v of PyInt n \<Rightarrow> float_of_int n | PyFloat x \<Rightarrow> Inr x)"

subsection \<open>Strings: \<open>lower\<close> and the substring test \<open>key in s\<close>\<close>

text \<open>
  A string of the model is a Python string of ASCII characters, one \<open>char\<close> each. On
  these \<open>str.lower\<close> changes the 26 capitals and nothing else. Python lowers other
  characters too (the Kelvin sign U+212A becomes \<open>k\<close>); a name that holds one is outside
  the model, and no property below reads the lower-casing of such a name: the template
  names are ASCII, and on structured rooms the lower-cased name only picks a colour.
\<close>

definition lower_char :: "char \<Rightarrow> char" where
  "lower_char c =
     (case map_of (zip ''ABCDEFGHIJKLMNOPQRSTUVWXYZ'' ''abcdefghijklmnopqrstuvwxyz'') c of
        None \<Rightarrow> c
      | Some l \<Rightarrow> l)"

definition lower :: "string \<Rightarrow> string" where
  "lower s = map lower_char s"

fun startswith :: "string \<Rightarrow> string \<Rightarrow> bool" where
  "startswith s [] = True"
| "startswith [] (p # ps) = False"
| "startswith (c # cs) (p # ps) = (c = p \<and> startswith cs ps)"

fun str_in :: "string \<Rightarrow> string \<Rightarrow> bool" where
  "str_in key [] = (key = [])"
| "str_in key (c # cs) = (startswith (c # cs) key \<or> str_in key cs)"

subsection \<open>Furniture, trees and internal walls\<close>

definition placed :: "shape \<Rightarrow> real \<times> real \<times> real \<Rightarrow> nat list \<Rightarrow> mesh" where
  "placed s v c = \<lparr>shape_of = s, offset = v, vertex_colors = c\<rparr>"

definition create_furniture ::
  "string \<Rightarrow> real \<Rightarrow> real \<Rightarrow> real \<Rightarrow> real \<Rightarrow> real \<Rightarrow> node list" where
  "create_furniture room_type x y z room_w room_d =
     (if str_in ''bedroom'' (lower room_type) then
        [(''Bed'', placed (Box 1.8 2.0 0.5) (x + room_w / 2, y + room_d / 2, z + 0.25) [139, 69, 19, 255]),
         (''Nightstand'', placed (Box 0.4 0.4 0.5) (x + room_w / 2 + 1.2, y + room_d / 2, z + 0.25) [160, 82, 45, 255])]
      else if str_in ''living'' (lower room_type) then
        [(''Sofa'', placed (Box 2.0 0.8 0.7) (x + room_w / 2, y + 1.0, z + 0.35) [70, 130, 180, 255]),
         (''Table'', placed (Box 1.0 0.6 0.4) (x + room_w / 2, y + 2.2, z + 0.2) [139, 69, 19, 255])]
      else if str_in ''kitchen'' (lower room_type) then
        [(''Counter'', placed (Box (room_w - 0.5) 0.6 0.9) (x + room_w / 2, y + 0.5, z + 0.45) [192, 192, 192, 255])]
      else if str_in ''dining'' (lower room_type) then
        [(''Dining_Table'', placed (Box 1.5 1.0 0.75) (x + room_w / 2, y + room_d / 2, z + 0.375) [139, 69, 19, 255])]
      else if str_in ''bathroom'' (lower room_type) then
        [(''Toilet'', placed (Cylinder 0.25 0.4) (x + 0.5, y + 0.5, z + 0.2) [255, 255, 255, 255])]
      else [])"

text \<open>
  \<open>create_outdoor_plants\<close> and \<open>create_internal_walls\<close> call \<open>add_geometry\<close> on the
  scene they are given; the model returns their calls, name and mesh, in order, and the
  caller applies them to its scene with \<open>add_all\<close>.
\<close>

definition create_outdoor_plants :: "real \<Rightarrow> real \<Rightarrow> real \<Rightarrow> node list" where
  "create_outdoor_plants max_x max_y z =
     (let plant_positions =
            [(- 1.5, 2, ''Tree_1''),
             (- 1.5, max_y - 2, ''Tree_2''),
             (max_x + 1.5, 2, ''Tree_3''),
             (max_x + 1.5, max_y - 2, ''Tree_4'')]
      in concat (map (\<lambda>(px, py, name).
           [(name @ ''_trunk'', placed (Cylinder 0.15 1.5) (px, py, z + 0.75) [101, 67, 33, 255]),
            (name @ ''_foliage'', placed (Cone 0.8 1.5) (px, py, z + 2.25) [34, 139, 34, 255])])
           plant_positions))"

text \<open>
  The body of the inner loop of \<open>create_internal_walls\<close> for the room at index \<open>i\<close> and a
  later room: the \<open>add_geometry\<close> call it makes, if any. The name is built from \<open>i\<close> and
  \<open>i + 1\<close>, not from the index of the later room, so two walls of the same room and the
  same direction are added under one name.
  The comparisons are those of exact arithmetic. On floats a distance that is 0.1 up to
  rounding can compare differently (\<open>abs(0.4 - 0.5) < 0.1\<close> holds in Python); on
  coordinates that are multiples of one half, as in the templates and in the properties
  below, the differences are exact and far from 0.1, and the two agree.
\<close>

definition wall_between :: "nat \<Rightarrow> room \<Rightarrow> room \<Rightarrow> real \<Rightarrow> real \<Rightarrow> real \<Rightarrow> node list" where
  "wall_between i room1 room2 wall_thickness wall_height z =
     (let wall_color = [220, 220, 220, 255];
          r1_x1 = rm_x room1; r1_y1 = rm_y room1;
          r1_x2 = rm_x room1 + rm_w room1; r1_y2 = rm_y room1 + rm_d room1;
          r2_x1 = rm_x room2; r2_y1 = rm_y room2;
          r2_x2 = rm_x room2 + rm_w room2; r2_y2 = rm_y room2 + rm_d room2
      in if \<bar>r1_x2 - r2_x1\<bar> < 0.1 \<and> \<not> (r1_y2 < r2_y1 \<or> r2_y2 < r1_y1) then
           (let overlap_y1 = max r1_y1 r2_y1;
                overlap_y2 = min r1_y2 r2_y2
            in if overlap_y2 > overlap_y1 then
                 [(''Wall_internal_'' @ str_int (int i) @ ''_'' @ str_int (int i + 1),
                   placed (Box wall_thickness (overlap_y2 - overlap_y1) wall_height)
                     (r1_x2, (overlap_y1 + overlap_y2) / 2, z + wall_height / 2) wall_color)]
               else [])
         else if \<bar>r1_y2 - r2_y1\<bar> < 0.1 \<and> \<not> (r1_x2 < r2_x1 \<or> r2_x2 < r1_x1) then
           (let overlap_x1 = max r1_x1 r2_x1;
                overlap_x2 = min r1_x2 r2_x2
            in if overlap_x2 > overlap_x1 then
                 [(''Wall_internal_'' @ str_int (int i) @ ''_'' @ str_int (int i + 1) @ ''_h'',
                   placed (Box (overlap_x2 - overlap_x1) wall_thickness wall_height)
                     ((overlap_x1 + overlap_x2) / 2, r1_y2, z + wall_height / 2) wall_color)]
               else [])
         else [])"

text \<open>
  The two loops: \<open>for i, room1 in enumerate(rooms): for room2 in rooms[i+1:]\<close>, started
  at index \<open>i\<close>; the result is the sequence of \<open>add_geometry\<close> calls.
\<close>

fun walls_from :: "nat \<Rightarrow> room list \<Rightarrow> real \<Rightarrow> real \<Rightarrow> real \<Rightarrow> node list" where
  "walls_from i [] wall_thickness wall_height z = []"
| "walls_from i (room1 # rest) wall_thickness wall_height z =
     concat (map (\<lambda>room2. wall_between i room1 room2 wall_thickness wall_height z) rest) @
     walls_from (i + 1) rest wall_thickness wall_height z"

definition create_internal_walls :: "room list \<Rightarrow> real \<Rightarrow> real \<Rightarrow> real \<Rightarrow> node list" where
  "create_internal_walls rooms wall_thickness wall_height z =
     walls_from 0 rooms wall_thickness wall_height z"

subsection \<open>The template scene: \<open>generate_realistic_house_glb\<close>\<close>

text \<open>Python's \<open>max\<close> of a list raises \<open>ValueError\<close> on the empty list.\<close>

definition py_max :: "real list \<Rightarrow> py_error + real" where
  "py_max xs = (case xs of [] \<Rightarrow> Inl ValueError | x # rest \<Rightarrow> Inr (foldl max x rest))"

text \<open>
  The floor of a room and its furniture: the \<open>add_geometry\<close> calls of the body of
  \<open>for room in rooms\<close>.
\<close>

definition room_nodes :: "room \<Rightarrow> node list" where
  "room_nodes room =
     (rm_name room @ ''_floor'',
      placed (Box (rm_w room) (rm_d room) 0.05)
        (rm_x room + rm_w room / 2, rm_y room + rm_d room / 2, 0.025)
        [245, 245, 220, 255]) #
     map (\<lambda>(furn_name, furn_mesh). (rm_name room @ ''_'' @ furn_name, furn_mesh))
       (create_furniture (rm_name room) (rm_x room) (rm_y room) 0.05 (rm_w room) (rm_d room))"

definition outer_walls :: "real \<Rightarrow> real \<Rightarrow> real \<Rightarrow> real \<Rightarrow> node list" where
  "outer_walls max_x max_y wall_thickness wall_height =
     (let wall_color = [210, 180, 140, 255] in
      [(''Wall_North'',
        placed (Box (max_x + wall_thickness) wall_thickness wall_height)
          (max_x / 2, - wall_thickness / 2, wall_height / 2) wall_color),
       (''Wall_South'',
        placed (Box (max_x + wall_thickness) wall_thickness wall_height)
          (max_x / 2, max_y + wall_thickness / 2, wall_height / 2) wall_color),
       (''Wall_East'',
        placed (Box wall_thickness max_y wall_height)
          (- wall_thickness / 2, max_y / 2, wall_height / 2) wall_color),
       (''Wall_West'',
        placed (Box wall_thickness max_y wall_height)
          (max_x + wall_thickness / 2, max_y / 2, wall_height / 2) wall_color)])"

text \<open>
  The scene built from the chosen rooms: everything in \<open>generate_realistic_house_glb\<close>
  after the choice of the template.
\<close>

definition house_scene :: "room list \<Rightarrow> py_error + scene" where
  "house_scene rooms =
     (let scene = add_all [] (concat (map room_nodes rooms))
      in and_then (py_max (map (\<lambda>r. rm_x r + rm_w r) rooms)) (\<lambda>max_x.
         and_then (py_max (map (\<lambda>r. rm_y r + rm_d r) rooms)) (\<lambda>max_y.
         let scene = add_geometry scene
               (''Ground'', placed (Box (max_x + 4) (max_y + 4) 0.1) (max_x / 2, max_y / 2, - 0.05)
                   [144, 238, 144, 255]);
             wall_thickness = 0.25;
             wall_height = 3.5;
             scene = add_all scene (outer_walls max_x max_y wall_thickness wall_height);
             scene = add_all scene (create_internal_walls rooms 0.15 wall_height 0);
             scene = add_all scene (create_outdoor_plants max_x max_y 0);
             scene = add_geometry scene
               (''Driveway'', placed (Box 2 (max_y + 4) 0.08) (- 2, max_y / 2, 0.04)
                   [128, 128, 128, 255])
         in Inr scene)))"

text \<open>
  \<open>generate_realistic_house_glb(bhk, sqft)\<close>. The first statement multiplies the area by
  a float, which raises for an int beyond the float range; the product and the side length
  are not read again.
\<close>

definition generate_realistic_house_glb_num :: "int \<Rightarrow> py_num \<Rightarrow> py_error + scene" where
  "generate_realistic_house_glb_num bhk sqft =
     and_then (py_float sqft) (\<lambda>area.
     let total_area_m2 = area * 0.092903;
         side_length = sqrt total_area_m2;
         rooms = house_rooms bhk
     in house_scene rooms)"

text \<open>The function at a float area, where the product cannot raise.\<close>

definition generate_realistic_house_glb :: "int \<Rightarrow> real \<Rightarrow> py_error + scene" where
  "generate_realistic_house_glb bhk sqft = generate_realistic_house_glb_num bhk (PyFloat sqft)"

subsection \<open>Structured room data: \<open>generate_glb_from_json\<close>\<close>

text \<open>
  The value \<open>json.loads\<close> returns: \<open>None\<close>, a bool, an int of any size, a float (taken
  finite, and read as the real it denotes), a string, a list or a dict with string keys
  (an association list, read with \<open>map_of\<close>).
\<close>

datatype json =
    JNull
  | JBool bool
  | JInt int
  | JFloat real
  | JStr string
  | JArr "json list"
  | JObj "(string \<times> json) list"

text \<open>\<open>v.get(key, default)\<close>: only a dict has the method.\<close>

definition py_get :: "json \<Rightarrow> string \<Rightarrow> json \<Rightarrow> py_error + json" where
  "py_get v key dflt =
     (case v of
        JObj kvs \<Rightarrow> Inr (case map_of kvs key of Some x \<Rightarrow> x | None \<Rightarrow> dflt)
      | _ \<Rightarrow> Inl AttributeError)"

text \<open>
  An operand of \<open>/\<close> or \<open>+\<close> whose other operand is a float: a float, an int that
  converts to a float, or a bool (which Python reads as 1 or 0); an int beyond the float
  range raises \<open>OverflowError\<close>, any other value \<open>TypeError\<close>.
\<close>

definition py_number :: "json \<Rightarrow> py_error + real" where
  "py_number v =
     (case v of
        JInt n \<Rightarrow> float_of_int n
      | JFloat x \<Rightarrow> Inr x
      | JBool b \<Rightarrow> Inr (if b then 1 else 0)
      | _ \<Rightarrow> Inl TypeError)"

text \<open>
  An entry of the list that \<open>+=\<close> adds to the float vertices of a mesh. numpy makes the
  list an array of floats when its entries are floats, bools and ints of at most 64 bits;
  a larger int makes it an array of objects, which cannot be added in place to an array
  of floats, and so does every value that is not a number.
\<close>

definition np_number :: "json \<Rightarrow> py_error + real" where
  "np_number v =
     (case v of
        JInt n \<Rightarrow> (if - (2 ^ 63) \<le> n \<and> n < 2 ^ 64 then Inr (real_of_int n) else Inl TypeError)
      | JFloat x \<Rightarrow> Inr x
      | JBool b \<Rightarrow> Inr (if b then 1 else 0)
      | _ \<Rightarrow> Inl TypeError)"

text \<open>\<open>v.lower()\<close>: only a string has the method.\<close>

definition py_lower :: "json \<Rightarrow> py_error + string" where
  "py_lower v = (case v of JStr s \<Rightarrow> Inr (lower s) | _ \<Rightarrow> Inl AttributeError)"

text \<open>The truth value of \<open>if rooms:\<close>.\<close>

definition truthy :: "json \<Rightarrow> bool" where
  "truthy v =
     (case v of
        JNull \<Rightarrow> False
      | JBool b \<Rightarrow> b
      | JInt n \<Rightarrow> n \<noteq> 0
      | JFloat x \<Rightarrow> x \<noteq> 0
      | JStr s \<Rightarrow> s \<noteq> []
      | JArr xs \<Rightarrow> xs \<noteq> []
      | JObj kvs \<Rightarrow> kvs \<noteq> [])"

text \<open>
  What \<open>for room in v\<close> ranges over: the elements of a list, the keys of a dict, the
  characters of a string; nothing else is iterable.
\<close>

definition py_iter :: "json \<Rightarrow> py_error + json list" where
  "py_iter v =
     (case v of
        JArr xs \<Rightarrow> Inr xs
      | JObj kvs \<Rightarrow> Inr (map (\<lambda>kv. JStr (fst kv)) kvs)
      | JStr s \<Rightarrow> Inr (map (\<lambda>c. JStr [c]) s)
      | _ \<Rightarrow> Inl TypeError)"

text \<open>A list comprehension whose element expression may raise.\<close>

fun py_map :: "('a \<Rightarrow> py_error + 'b) \<Rightarrow> 'a list \<Rightarrow> py_error + 'b list" where
  "py_map f [] = Inr []"
| "py_map f (x # xs) = and_then (f x) (\<lambda>y. and_then (py_map f xs) (\<lambda>ys. Inr (y # ys)))"

definition room_colors :: "(string \<times> nat list) list" where
  "room_colors =
     [(''bedroom'', [200, 150, 150, 255]),
      (''living'', [150, 200, 150, 255]),
      (''kitchen'', [150, 150, 200, 255]),
      (''bathroom'', [200, 200, 150, 255]),
      (''dining'', [180, 150, 200, 255]),
      (''default'', [180, 180, 180, 255])]"

text \<open>
  The colour loop: \<open>room_colors["default"]\<close> unless a key of the palette, in its order,
  occurs in the lower-cased name; the first such key wins.
\<close>

definition pick_color :: "string \<Rightarrow> nat list" where
  "pick_color room_type =
     (case find (\<lambda>kc. str_in (fst kc) room_type) room_colors of
        Some kc \<Rightarrow> snd kc
      | None \<Rightarrow> [180, 180, 180, 255])"

text \<open>
  The node name \<open>room.get("name", "room")\<close>. Where it is read, \<open>lower\<close> has already
  succeeded on the same entry, so the name is a string.
\<close>

definition node_name :: "json \<Rightarrow> py_error + string" where
  "node_name v = (case v of JStr s \<Rightarrow> Inr s | _ \<Rightarrow> Inl TypeError)"

text \<open>
  The body of \<open>for room in rooms\<close> up to its \<open>add_geometry\<close> call: the name and the mesh
  of the call. The box is created around the origin and moved by the position as given,
  so the position is the centre of its footprint.
\<close>

definition room_box :: "json \<Rightarrow> py_error + node" where
  "room_box room =
     and_then (py_get room ''dimensions''
        (JObj [(''length'', JInt 10), (''width'', JInt 10), (''height'', JInt 10)])) (\<lambda>dims.
     and_then (py_get room ''position''
        (JObj [(''x'', JInt 0), (''y'', JInt 0), (''z'', JInt 0)])) (\<lambda>pos.
     and_then (and_then (py_get dims ''length'' (JInt 10)) py_number) (\<lambda>l.
     and_then (and_then (py_get dims ''width'' (JInt 10)) py_number) (\<lambda>w.
     and_then (and_then (py_get dims ''height'' (JInt 10)) py_number) (\<lambda>h.
     let len = l / 3.28; width = w / 3.28; height = h / 3.28 in
     and_then (py_get pos ''x'' (JInt 0)) (\<lambda>px.
     and_then (py_get pos ''y'' (JInt 0)) (\<lambda>py.
     and_then (np_number px) (\<lambda>vx.
     and_then (np_number py) (\<lambda>vy.
     and_then (and_then (py_get room ''name'' (JStr [])) py_lower) (\<lambda>room_type.
     let color = pick_color room_type in
     and_then (and_then (py_get room ''name'' (JStr ''room'')) node_name) (\<lambda>name.
     Inr (name, placed (Box len width height) (vx, vy, height / 2) color))))))))))))"

fun add_rooms :: "json list \<Rightarrow> scene \<Rightarrow> py_error + scene" where
  "add_rooms [] scene = Inr scene"
| "add_rooms (room # rest) scene =
     and_then (room_box room) (\<lambda>n. add_rooms rest (add_geometry scene n))"

text \<open>
  The elements of the two comprehensions under \<open># Add floor\<close>:
  \<open>r.get("position", {}).get("x", 0) + r.get("dimensions", {}).get("length", 10)/3.28\<close>
  and the same with \<open>y\<close> and \<open>width\<close>.
\<close>

definition room_far_edge :: "string \<Rightarrow> string \<Rightarrow> json \<Rightarrow> py_error + real" where
  "room_far_edge axis side r =
     and_then (py_get r ''position'' (JObj [])) (\<lambda>pos.
     and_then (py_get pos axis (JInt 0)) (\<lambda>p.
     and_then (py_get r ''dimensions'' (JObj [])) (\<lambda>dims.
     and_then (py_get dims side (JInt 10)) (\<lambda>s.
     and_then (py_number s) (\<lambda>sv.
     and_then (py_number p) (\<lambda>pv. Inr (pv + sv / 3.28)))))))"

text \<open>The \<open>rooms\<close> variable: \<open>room_data["rooms"]\<close> of a dict that has the key, else \<open>None\<close>.\<close>

definition rooms_of :: "json \<Rightarrow> json" where
  "rooms_of room_data =
     (case room_data of
        JObj kvs \<Rightarrow> (case map_of kvs ''rooms'' of Some v \<Rightarrow> v | None \<Rightarrow> JNull)
      | _ \<Rightarrow> JNull)"

text \<open>The branch of \<open>if rooms:\<close> that draws the rooms, and the floor slab after it.\<close>

definition rooms_scene :: "json \<Rightarrow> py_error + scene" where
  "rooms_scene rooms =
     and_then (py_iter rooms) (\<lambda>rs.
     and_then (add_rooms rs []) (\<lambda>scene.
     and_then (py_map (room_far_edge ''x'' ''length'') rs) (\<lambda>xs.
     and_then (py_max (if xs = [] then [10] else xs)) (\<lambda>max_x.
     and_then (py_map (room_far_edge ''y'' ''width'') rs) (\<lambda>ys.
     and_then (py_max (if ys = [] then [10] else ys)) (\<lambda>max_y.
     Inr (add_geometry scene
       (''floor'', placed (Box (max_x + 2) (max_y + 2) 0.1) (max_x / 2, max_y / 2, - 0.05)
           [220, 220, 220, 255]))))))))"

text \<open>The body of the \<open>try\<close>.\<close>

definition glb_from_json_body :: "json \<Rightarrow> int \<Rightarrow> py_num \<Rightarrow> py_error + scene" where
  "glb_from_json_body room_data bhk sqft =
     (let rooms = rooms_of room_data in
      if truthy rooms then rooms_scene rooms
      else generate_realistic_house_glb_num bhk sqft)"

text \<open>
  The \<open>try\<close> with its handler: on any exception of the body the handler calls the
  template generator, outside of any \<open>try\<close>, so what that call raises reaches the caller.
\<close>

definition generate_glb_from_json_num :: "json \<Rightarrow> int \<Rightarrow> py_num \<Rightarrow> py_error + scene" where
  "generate_glb_from_json_num room_data bhk sqft =
     (case glb_from_json_body room_data bhk sqft of
        Inr glb \<Rightarrow> Inr glb
      | Inl e \<Rightarrow> generate_realistic_house_glb_num bhk sqft)"

text \<open>The choice of \<open>generate_final\<close> between the two builders: \<open>if plan_json:\<close>.\<close>

definition generate_final_glb_num :: "json \<Rightarrow> int \<Rightarrow> py_num \<Rightarrow> py_error + scene" where
  "generate_final_glb_num plan_json bhk sqft =
     (if truthy plan_json then generate_glb_from_json_num plan_json bhk sqft
      else generate_realistic_house_glb_num bhk sqft)"

text \<open>The two functions at a float area.\<close>

definition generate_glb_from_json :: "json \<Rightarrow> int \<Rightarrow> real \<Rightarrow> py_error + scene" where
  "generate_glb_from_json room_data bhk sqft =
     generate_glb_from_json_num room_data bhk (PyFloat sqft)"

definition generate_final_glb :: "json \<Rightarrow> int \<Rightarrow> real \<Rightarrow> py_error + scene" where
  "generate_final_glb plan_json bhk sqft = generate_final_glb_num plan_json bhk (PyFloat sqft)"

subsection \<open>Vocabulary of the properties\<close>

text \<open>The area two room footprints have in common.\<close>

definition intersection_area :: "room \<Rightarrow> room \<Rightarrow> real" where
  "intersection_area a b =
     max 0 (min (rm_x a + rm_w a) (rm_x b + rm_w b) - max (rm_x a) (rm_x b)) *
     max 0 (min (rm_y a + rm_d a) (rm_y b + rm_d b) - max (rm_y a) (rm_y b))"

fun no_overlap :: "room list \<Rightarrow> bool" where
  "no_overlap [] = True"
| "no_overlap (r # rs) = (list_all (\<lambda>r'. intersection_area r r' = 0) rs \<and> no_overlap rs)"

text \<open>\<open>s.endswith(suffix)\<close>, used to pick nodes by the suffix of their name.\<close>

definition endswith :: "string \<Rightarrow> string \<Rightarrow> bool" where
  "endswith s suffix = startswith (rev s) (rev suffix)"

text \<open>
  The space a box mesh fills, as its three coordinate intervals: \<open>trimesh.creation.box\<close>
  centres the box on the origin and the offset moves it.
\<close>

definition box_range ::
  "mesh \<Rightarrow> ((real \<times> real) \<times> (real \<times> real) \<times> (real \<times> real)) option" where
  "box_range m =
     (case shape_of m of
        Box ex ey ez \<Rightarrow>
          (case offset m of (cx, cy, cz) \<Rightarrow>
             Some ((cx - ex / 2, cx + ex / 2), (cy - ey / 2, cy + ey / 2), (cz - ez / 2, cz + ez / 2)))
      | _ \<Rightarrow> None)"

text \<open>The nodes of a scene that carry the name of one of the four outer walls.\<close>

definition perimeter_walls :: "scene \<Rightarrow> node list" where
  "perimeter_walls scene =
     filter (\<lambda>n. fst n \<in> set [''Wall_North'', ''Wall_South'', ''Wall_East'', ''Wall_West'']) scene"

text \<open>
  The scene of the two-bedroom template, with the far corner (13.5, 8) of its rooms
  written out; it has no internal wall.
\<close>

definition scene_2bhk :: scene where
  "scene_2bhk =
     concat (map room_nodes rooms_2bhk) @
     [(''Ground'', placed (Box (13.5 + 4) (8 + 4) 0.1) (13.5 / 2, 8 / 2, - 0.05)
         [144, 238, 144, 255])] @
     outer_walls 13.5 8 0.25 3.5 @
     create_outdoor_plants 13.5 8 0 @
     [(''Driveway'', placed (Box 2 (8 + 4) 0.08) (- 2, 8 / 2, 0.04) [128, 128, 128, 255])]"

text \<open>
  The add_geometry calls of the template scene, in order, for the far corner
  \<open>(max_x, max_y)\<close> of the rooms.
\<close>

definition house_calls :: "room list \<Rightarrow> real \<Rightarrow> real \<Rightarrow> node list" where
  "house_calls rooms max_x max_y =
     concat (map room_nodes rooms) @
     [(''Ground'', placed (Box (max_x + 4) (max_y + 4) 0.1) (max_x / 2, max_y / 2, - 0.05)
         [144, 238, 144, 255])] @
     outer_walls max_x max_y 0.25 3.5 @
     create_internal_walls rooms 0.15 3.5 0 @
     create_outdoor_plants max_x max_y 0 @
     [(''Driveway'', placed (Box 2 (max_y + 4) 0.08) (- 2, max_y / 2, 0.04) [128, 128, 128, 255])]"

text \<open>
  Reading a structured room entry: type tests, the value \<open>get\<close> returns on a dict, and
  the values that can stand next to a float in \<open>/\<close> and \<open>+\<close>.
\<close>

definition is_dict :: "json \<Rightarrow> bool" where
  "is_dict v = (case v of JObj kvs \<Rightarrow> True | _ \<Rightarrow> False)"

definition is_str :: "json \<Rightarrow> bool" where
  "is_str v = (case v of JStr s \<Rightarrow> True | _ \<Rightarrow> False)"

definition float_operand :: "json \<Rightarrow> bool" where
  "float_operand v =
     (case v of
        JInt n \<Rightarrow> - float_limit < n \<and> n < float_limit
      | JFloat x \<Rightarrow> True
      | JBool b \<Rightarrow> True
      | _ \<Rightarrow> False)"

definition field :: "json \<Rightarrow> string \<Rightarrow> json \<Rightarrow> json" where
  "field v key dflt =
     (case v of
        JObj kvs \<Rightarrow> (case map_of kvs key of Some x \<Rightarrow> x | None \<Rightarrow> dflt)
      | _ \<Rightarrow> dflt)"

text \<open>
  A room entry on which no read of the loop body is of the wrong type: the entry is a
  dict; \<open>dimensions\<close> and \<open>position\<close>, where present, are dicts; \<open>length\<close>, \<open>width\<close>,
  \<open>height\<close>, \<open>x\<close> and \<open>y\<close>, where present, are numbers within the float range; the name,
  where present, is a string. Absent keys are not looked at. An entry that fails the test
  is malformed.
\<close>

definition readable_room :: "json \<Rightarrow> bool" where
  "readable_room r =
     (is_dict r \<and>
      is_dict (field r ''dimensions'' (JObj [])) \<and>
      is_dict (field r ''position'' (JObj [])) \<and>
      float_operand (field (field r ''dimensions'' (JObj [])) ''length'' (JInt 10)) \<and>
      float_operand (field (field r ''dimensions'' (JObj [])) ''width'' (JInt 10)) \<and>
      float_operand (field (field r ''dimensions'' (JObj [])) ''height'' (JInt 10)) \<and>
      float_operand (field (field r ''position'' (JObj [])) ''x'' (JInt 0)) \<and>
      float_operand (field (field r ''position'' (JObj [])) ''y'' (JInt 0)) \<and>
      is_str (field r ''name'' (JStr [])))"

text \<open>
  The room of the example in the prompt that asks for the structured description, as a
  description of its own.
\<close>

definition prompt_example :: json where
  "prompt_example =
     JObj [(''rooms'', JArr [
       JObj [(''name'', JStr ''Master Bedroom''),
             (''dimensions'', JObj [(''length'', JInt 14), (''width'', JInt 12), (''height'', JInt 10)]),
             (''position'', JObj [(''x'', JInt 0), (''y'', JInt 0), (''z'', JInt 0)]),
             (''features'', JArr [JStr ''attached_bathroom'', JStr ''balcony''])]])]"

text \<open>The footprint of a box lies within the footprint of a slab.\<close>

definition footprint_within :: "mesh \<Rightarrow> mesh \<Rightarrow> bool" where
  "footprint_within m slab =
     (case box_range m of
        Some ((a1, a2), (b1, b2), cs) \<Rightarrow>
          (case box_range slab of
             Some ((x1, x2), (y1, y2), zs) \<Rightarrow> x1 \<le> a1 \<and> a2 \<le> x2 \<and> y1 \<le> b1 \<and> b2 \<le> y2
           | None \<Rightarrow> False)
      | None \<Rightarrow> False)"

section \<open>Verified properties\<close>

subsection \<open>The layout templates\<close>

lemma intersection_area_commute: "intersection_area a b = intersection_area b a"
  by (simp add: intersection_area_def min.commute max.commute)

lemma no_overlap_nth:
  "no_overlap rs \<Longrightarrow> i < j \<Longrightarrow> j < length rs \<Longrightarrow> intersection_area (rs ! i) (rs ! j) = 0"
proof (induction rs arbitrary: i j)
  case Nil then show ?case by simp
next
  case (Cons r rs)
  show ?case
  proof (cases i)
    case 0
    with Cons.prems obtain k where k: "j = Suc k" "k < length rs" by (cases j) auto
    from Cons.prems have "list_all (\<lambda>r'. intersection_area r r' = 0) rs" by simp
    with k have "intersection_area r (rs ! k) = 0" by (simp add: list_all_length)
    with 0 k show ?thesis by simp
  next
    case (Suc i')
    with Cons.prems obtain k where k: "j = Suc k" "k < length rs" "i' < k" by (cases j) auto
    from Cons.prems have "no_overlap rs" by simp
    from Cons.IH[OF this k(3) k(2)] Suc k show ?thesis by simp
  qed
qed

lemma no_overlap_distinct:
  assumes "no_overlap rs" "i < length rs" "j < length rs" "i \<noteq> j"
  shows "intersection_area (rs ! i) (rs ! j) = 0"
proof (cases "i < j")
  case True with assms show ?thesis by (simp add: no_overlap_nth)
next
  case False
  with assms have "j < i" by simp
  with assms have "intersection_area (rs ! j) (rs ! i) = 0" by (simp add: no_overlap_nth)
  then show ?thesis by (simp add: intersection_area_commute)
qed

lemma house_rooms_cases:
  "house_rooms bhk = rooms_1bhk \<or> house_rooms bhk = rooms_2bhk \<or>
   house_rooms bhk = rooms_3bhk \<or> house_rooms bhk = rooms_4bhk"
  by (simp add: house_rooms_def)

lemma no_overlap_1: "no_overlap rooms_1bhk" by (simp add: rooms_1bhk_def intersection_area_def)
lemma no_overlap_2: "no_overlap rooms_2bhk" by (simp add: rooms_2bhk_def intersection_area_def)
lemma no_overlap_3: "no_overlap rooms_3bhk" by (simp add: rooms_3bhk_def intersection_area_def)
lemma no_overlap_4: "no_overlap rooms_4bhk" by (simp add: rooms_4bhk_def intersection_area_def)

lemma no_overlap_house: "no_overlap (house_rooms bhk)"
  using house_rooms_cases[of bhk] no_overlap_1 no_overlap_2 no_overlap_3 no_overlap_4 by auto

lemma positive_house: "list_all (\<lambda>r. 0 < rm_w r \<and> 0 < rm_d r) (house_rooms bhk)"
  using house_rooms_cases[of bhk]
  by (auto simp: rooms_1bhk_def rooms_2bhk_def rooms_3bhk_def rooms_4bhk_def)

lemma nonempty_house: "house_rooms bhk \<noteq> []"
  using house_rooms_cases[of bhk]
  by (auto simp: rooms_1bhk_def rooms_2bhk_def rooms_3bhk_def rooms_4bhk_def)

text \<open>
  Claim C6. Whatever the room count, the template chosen for the 3D scene is a non-empty
  list of rooms of positive width and depth, and two rooms at different positions of the
  list have a common area of zero.
\<close>

theorem templates_do_not_overlap:
  "house_rooms bhk \<noteq> [] \<and>
   (\<forall>i < length (house_rooms bhk).
      0 < rm_w (house_rooms bhk ! i) \<and> 0 < rm_d (house_rooms bhk ! i)) \<and>
   (\<forall>i < length (house_rooms bhk). \<forall>j < length (house_rooms bhk).
      i \<noteq> j \<longrightarrow> intersection_area (house_rooms bhk ! i) (house_rooms bhk ! j) = 0)"
  using nonempty_house[of bhk] positive_house[of bhk] no_overlap_house[of bhk]
  by (auto simp: list_all_length no_overlap_distinct)

theorem templates_do_not_overlap_witness:
  "intersection_area (house_rooms 4 ! 3) (house_rooms 4 ! 4) = 0 \<and> 0 < rm_w (house_rooms 4 ! 3)"
proof -
  have l: "(3::nat) < length (house_rooms 4)" "(4::nat) < length (house_rooms 4)"
    by (simp_all add: house_rooms_def rooms_4bhk_def)
  from templates_do_not_overlap[of 4] l show ?thesis by auto
qed

text \<open>
  Claim C2, as the code has it. Both template choices (3D and floor plan) are total: the
  counts 1, 2 and 3 pick their own template and every other integer, the counts from 4
  up and also zero and the negative counts, picks the 4-BHK template.
\<close>

theorem layout_selection:
  "(bhk = 1 \<longrightarrow> house_rooms bhk = rooms_1bhk \<and> svg_rooms bhk = plan_1bhk) \<and>
   (bhk = 2 \<longrightarrow> house_rooms bhk = rooms_2bhk \<and> svg_rooms bhk = plan_2bhk) \<and>
   (bhk = 3 \<longrightarrow> house_rooms bhk = rooms_3bhk \<and> svg_rooms bhk = plan_3bhk) \<and>
   (bhk \<ge> 4 \<or> bhk \<le> 0 \<longrightarrow> house_rooms bhk = rooms_4bhk \<and> svg_rooms bhk = plan_4bhk)"
  by (auto simp: house_rooms_def svg_rooms_def)

theorem layout_selection_witness:
  "house_rooms 1 = rooms_1bhk \<and> svg_rooms 2 = plan_2bhk \<and> house_rooms 3 = rooms_3bhk \<and>
   house_rooms 7 = rooms_4bhk \<and> house_rooms (- 2) = rooms_4bhk \<and> svg_rooms 0 = plan_4bhk"
  using layout_selection[of 1] layout_selection[of 2] layout_selection[of 3]
    layout_selection[of 7] layout_selection[of "- 2"] layout_selection[of 0]
  by simp

text \<open>
  Claim C2 as stated fails: the counts below 1 are not mapped to the 1-BHK template, they
  fall into the final \<open>else\<close> of both chains.
\<close>

theorem layout_selection_counterexample:
  "house_rooms 0 = rooms_4bhk \<and> house_rooms 0 \<noteq> rooms_1bhk \<and>
   svg_rooms (- 1) = plan_4bhk \<and> svg_rooms (- 1) \<noteq> plan_1bhk"
  by (simp add: house_rooms_def svg_rooms_def rooms_4bhk_def rooms_1bhk_def plan_4bhk_def plan_1bhk_def)

subsection \<open>Internal walls\<close>

lemma generate_realistic_house_glb_num_code [code]:
  "generate_realistic_house_glb_num bhk sqft =
     and_then (py_float sqft) (\<lambda>area. house_scene (house_rooms bhk))"
  by (simp add: generate_realistic_house_glb_num_def Let_def)

lemma generate_realistic_house_glb_code:
  "generate_realistic_house_glb bhk sqft = house_scene (house_rooms bhk)"
  by (simp add: generate_realistic_house_glb_def generate_realistic_house_glb_num_def
      py_float_def and_then_def Let_def)

lemma internal_walls_1: "create_internal_walls rooms_1bhk 0.15 3.5 0 = []"
  by (simp add: create_internal_walls_def rooms_1bhk_def wall_between_def Let_def)

lemma internal_walls_2: "create_internal_walls rooms_2bhk 0.15 3.5 0 = []"
  by (simp add: create_internal_walls_def rooms_2bhk_def wall_between_def Let_def)

lemma internal_walls_3: "create_internal_walls rooms_3bhk 0.15 3.5 0 = []"
  by (simp add: create_internal_walls_def rooms_3bhk_def wall_between_def Let_def)

lemma internal_walls_4: "create_internal_walls rooms_4bhk 0.15 3.5 0 = []"
  by (simp add: create_internal_walls_def rooms_4bhk_def wall_between_def Let_def)

lemma internal_walls_house: "create_internal_walls (house_rooms bhk) 0.15 3.5 0 = []"
  using house_rooms_cases[of bhk] internal_walls_1 internal_walls_2 internal_walls_3 internal_walls_4
  by auto

text \<open>
  Claim C4 fails on the code. Neighbouring template rooms are half a unit apart, beyond the
  tolerance of 0.1, so the call of \<open>create_internal_walls\<close> that the scene builder makes
  (wall thickness 0.15, the outer wall height 3.5) adds no wall, whatever the room count.
\<close>

theorem templates_get_no_internal_wall:
  "create_internal_walls (house_rooms bhk) 0.15 3.5 0 = []"
  by (rule internal_walls_house)

text \<open>
  Claim C3 fails on the code. A room A and the room B to its right, sharing the edge
  \<open>x = 4\<close>: listed as A, B the pair gets its wall, listed as B, A it gets none, since only
  the right (or far) edge of the earlier room is compared with the left (or near) edge
  of the later one.
\<close>

theorem internal_walls_depend_on_order:
  "create_internal_walls
     [\<lparr>rm_name = ''A'', rm_x = 0, rm_y = 0, rm_w = 4, rm_d = 4, rm_h = 3, rm_color = []\<rparr>,
      \<lparr>rm_name = ''B'', rm_x = 4, rm_y = 0, rm_w = 4, rm_d = 4, rm_h = 3, rm_color = []\<rparr>] 0.15 3.5 0 =
     [(''Wall_internal_0_1'', placed (Box 0.15 4 3.5) (4, 2, 1.75) [220, 220, 220, 255])] \<and>
   create_internal_walls
     [\<lparr>rm_name = ''B'', rm_x = 4, rm_y = 0, rm_w = 4, rm_d = 4, rm_h = 3, rm_color = []\<rparr>,
      \<lparr>rm_name = ''A'', rm_x = 0, rm_y = 0, rm_w = 4, rm_d = 4, rm_h = 3, rm_color = []\<rparr>] 0.15 3.5 0 = []"
  by (simp add: create_internal_walls_def wall_between_def Let_def str_int_def digits.simps)

subsection \<open>The floor plan\<close>

lemma foldl_append_concat: "foldl (\<lambda>acc x. acc @ f x) acc xs = acc @ concat (map f xs)"
  by (induction xs arbitrary: acc) simp_all

text \<open>
  Claim C9. The floor plan is a function of the room-count category alone: two calls with
  the same count, or with two counts that both fall into the final \<open>else\<close>, return the
  same string whatever the area arguments, and the string opens an 800 by 600 canvas.
\<close>

theorem floor_plan_deterministic:
  "(bhk1 = bhk2 \<or> (bhk1 \<notin> {1, 2, 3} \<and> bhk2 \<notin> {1, 2, 3})) \<Longrightarrow>
   generate_svg_floor_plan bhk1 sqft1 = generate_svg_floor_plan bhk2 sqft2 \<and>
   (\<exists>rest. generate_svg_floor_plan bhk1 sqft1 =
      ''<svg width=\"800\" height=\"600\" xmlns=\"http://www.w3.org/2000/svg\">'' @ rest)"
  by (auto simp: generate_svg_floor_plan_def svg_rooms_def Let_def foldl_append_concat
      str_int_def digits.simps)

theorem floor_plan_deterministic_witness:
  "generate_svg_floor_plan 2 600 = generate_svg_floor_plan 2 2400 \<and>
   generate_svg_floor_plan 4 600 = generate_svg_floor_plan 9 2400"
  using floor_plan_deterministic[of 2 2 600 2400] floor_plan_deterministic[of 4 9 600 2400]
  by simp

subsection \<open>The template scene\<close>

lemma py_max_x_1: "py_max (map (\<lambda>r. rm_x r + rm_w r) rooms_1bhk) = Inr 8.5"
  by (simp add: py_max_def rooms_1bhk_def)
lemma py_max_y_1: "py_max (map (\<lambda>r. rm_y r + rm_d r) rooms_1bhk) = Inr 8.5"
  by (simp add: py_max_def rooms_1bhk_def)
lemma py_max_x_2: "py_max (map (\<lambda>r. rm_x r + rm_w r) rooms_2bhk) = Inr 13.5"
  by (simp add: py_max_def rooms_2bhk_def)
lemma py_max_y_2: "py_max (map (\<lambda>r. rm_y r + rm_d r) rooms_2bhk) = Inr 8"
  by (simp add: py_max_def rooms_2bhk_def)
lemma py_max_x_3: "py_max (map (\<lambda>r. rm_x r + rm_w r) rooms_3bhk) = Inr 13.5"
  by (simp add: py_max_def rooms_3bhk_def)
lemma py_max_y_3: "py_max (map (\<lambda>r. rm_y r + rm_d r) rooms_3bhk) = Inr 12"
  by (simp add: py_max_def rooms_3bhk_def)
lemma py_max_x_4: "py_max (map (\<lambda>r. rm_x r + rm_w r) rooms_4bhk) = Inr 15"
  by (simp add: py_max_def rooms_4bhk_def)
lemma py_max_y_4: "py_max (map (\<lambda>r. rm_y r + rm_d r) rooms_4bhk) = Inr 13.5"
  by (simp add: py_max_def rooms_4bhk_def)

lemma room_names_1: "map fst (concat (map room_nodes rooms_1bhk)) =
  [''Living Room_floor'', ''Living Room_Sofa'', ''Living Room_Table'',
   ''Bedroom_floor'', ''Bedroom_Bed'', ''Bedroom_Nightstand'',
   ''Kitchen_floor'', ''Kitchen_Counter'', ''Bathroom_floor'', ''Bathroom_Toilet'']"
  by (simp add: rooms_1bhk_def room_nodes_def create_furniture_def lower_def lower_char_def)

lemma room_names_2: "map fst (concat (map room_nodes rooms_2bhk)) =
  [''Living Room_floor'', ''Living Room_Sofa'', ''Living Room_Table'',
   ''Bedroom 1_floor'', ''Bedroom 1_Bed'', ''Bedroom 1_Nightstand'',
   ''Bedroom 2_floor'', ''Bedroom 2_Bed'', ''Bedroom 2_Nightstand'',
   ''Kitchen_floor'', ''Kitchen_Counter'', ''Bathroom_floor'', ''Bathroom_Toilet'',
   ''Dining_floor'', ''Dining_Dining_Table'']"
  by (simp add: rooms_2bhk_def room_nodes_def create_furniture_def lower_def lower_char_def)

lemma room_names_3: "map fst (concat (map room_nodes rooms_3bhk)) =
  [''Living Room_floor'', ''Living Room_Sofa'', ''Living Room_Table'',
   ''Bedroom 1_floor'', ''Bedroom 1_Bed'', ''Bedroom 1_Nightstand'',
   ''Bedroom 2_floor'', ''Bedroom 2_Bed'', ''Bedroom 2_Nightstand'',
   ''Bedroom 3_floor'', ''Bedroom 3_Bed'', ''Bedroom 3_Nightstand'',
   ''Kitchen_floor'', ''Kitchen_Counter'', ''Bathroom 1_floor'', ''Bathroom 1_Toilet'',
   ''Bathroom 2_floor'', ''Bathroom 2_Toilet'', ''Dining_floor'', ''Dining_Dining_Table'']"
  by (simp add: rooms_3bhk_def room_nodes_def create_furniture_def lower_def lower_char_def)

lemma room_names_4: "map fst (concat (map room_nodes rooms_4bhk)) =
  [''Living Room_floor'', ''Living Room_Sofa'', ''Living Room_Table'',
   ''Bedroom 1_floor'', ''Bedroom 1_Bed'', ''Bedroom 1_Nightstand'',
   ''Bedroom 2_floor'', ''Bedroom 2_Bed'', ''Bedroom 2_Nightstand'',
   ''Bedroom 3_floor'', ''Bedroom 3_Bed'', ''Bedroom 3_Nightstand'',
   ''Bedroom 4_floor'', ''Bedroom 4_Bed'', ''Bedroom 4_Nightstand'',
   ''Kitchen_floor'', ''Kitchen_Counter'', ''Bathroom 1_floor'', ''Bathroom 1_Toilet'',
   ''Bathroom 2_floor'', ''Bathroom 2_Toilet'', ''Dining_floor'', ''Dining_Dining_Table'']"
  by (simp add: rooms_4bhk_def room_nodes_def create_furniture_def lower_def lower_char_def)

lemma add_geometry_fresh: "fst n \<notin> fst ` set scene \<Longrightarrow> add_geometry scene n = scene @ [n]"
  by (induction scene) auto

lemma add_all_fresh: "distinct (map fst (scene @ ns)) \<Longrightarrow> add_all scene ns = scene @ ns"
  unfolding add_all_def
proof (induction ns arbitrary: scene)
  case Nil
  show ?case by simp
next
  case (Cons n ns)
  have f: "fst n \<notin> fst ` set scene"
    using Cons.prems by auto
  have d: "distinct (map fst ((scene @ [n]) @ ns))"
    using Cons.prems by auto
  show ?case
    using Cons.IH[OF d] by (simp add: add_geometry_fresh[OF f])
qed

lemma house_scene_calls:
  assumes "py_max (map (\<lambda>r. rm_x r + rm_w r) rooms) = Inr max_x"
    and "py_max (map (\<lambda>r. rm_y r + rm_d r) rooms) = Inr max_y"
  shows "house_scene rooms = Inr (add_all [] (house_calls rooms max_x max_y))"
  using assms by (simp add: house_scene_def and_then_def Let_def house_calls_def add_all_def)

text \<open>
  When the names of its calls are distinct, as they are in the four templates, the scene
  is the sequence of the calls.
\<close>

lemma house_scene_eq:
  assumes "py_max (map (\<lambda>r. rm_x r + rm_w r) rooms) = Inr max_x"
    and "py_max (map (\<lambda>r. rm_y r + rm_d r) rooms) = Inr max_y"
    and "distinct (map fst (house_calls rooms max_x max_y))"
  shows "house_scene rooms = Inr (
     concat (map room_nodes rooms) @
     [(''Ground'', placed (Box (max_x + 4) (max_y + 4) 0.1) (max_x / 2, max_y / 2, - 0.05)
         [144, 238, 144, 255])] @
     outer_walls max_x max_y 0.25 3.5 @
     create_internal_walls rooms 0.15 3.5 0 @
     create_outdoor_plants max_x max_y 0 @
     [(''Driveway'', placed (Box 2 (max_y + 4) 0.08) (- 2, max_y / 2, 0.04) [128, 128, 128, 255])])"
proof -
  have "add_all [] (house_calls rooms max_x max_y) = [] @ house_calls rooms max_x max_y"
    by (rule add_all_fresh) (simp add: assms(3))
  then show ?thesis
    unfolding house_scene_calls[OF assms(1) assms(2)] by (simp add: house_calls_def)
qed

lemma outer_wall_names:
  "map fst (outer_walls max_x max_y t h) = [''Wall_North'', ''Wall_South'', ''Wall_East'', ''Wall_West'']"
  by (simp add: outer_walls_def Let_def)

lemma plant_names:
  "map fst (create_outdoor_plants max_x max_y z) =
     [''Tree_1_trunk'', ''Tree_1_foliage'', ''Tree_2_trunk'', ''Tree_2_foliage'',
      ''Tree_3_trunk'', ''Tree_3_foliage'', ''Tree_4_trunk'', ''Tree_4_foliage'']"
  by (simp add: create_outdoor_plants_def Let_def)

lemma house_names:
  "map fst (house_calls rooms max_x max_y) =
     map fst (concat (map room_nodes rooms)) @
     [''Ground'', ''Wall_North'', ''Wall_South'', ''Wall_East'', ''Wall_West''] @
     map fst (create_internal_walls rooms 0.15 3.5 0) @
     [''Tree_1_trunk'', ''Tree_1_foliage'', ''Tree_2_trunk'', ''Tree_2_foliage'',
      ''Tree_3_trunk'', ''Tree_3_foliage'', ''Tree_4_trunk'', ''Tree_4_foliage'', ''Driveway'']"
  unfolding house_calls_def by (simp add: outer_wall_names plant_names)

lemma distinct_1: "distinct (map fst (house_calls rooms_1bhk max_x max_y))"
  unfolding house_names room_names_1 internal_walls_1 by simp
lemma distinct_2: "distinct (map fst (house_calls rooms_2bhk max_x max_y))"
  unfolding house_names room_names_2 internal_walls_2 by simp
lemma distinct_3: "distinct (map fst (house_calls rooms_3bhk max_x max_y))"
  unfolding house_names room_names_3 internal_walls_3 by simp
lemma distinct_4: "distinct (map fst (house_calls rooms_4bhk max_x max_y))"
  unfolding house_names room_names_4 internal_walls_4 by simp

lemma perimeter_walls_append: "perimeter_walls (xs @ ys) = perimeter_walls xs @ perimeter_walls ys"
  by (simp add: perimeter_walls_def)

lemma perimeter_walls_none:
  "filter (\<lambda>n. n \<in> set [''Wall_North'', ''Wall_South'', ''Wall_East'', ''Wall_West'']) (map fst xs) = []
   \<Longrightarrow> perimeter_walls xs = []"
  unfolding perimeter_walls_def by (induction xs) (auto split: if_splits)

lemma perimeter_rooms_1: "perimeter_walls (concat (map room_nodes rooms_1bhk)) = []"
  by (rule perimeter_walls_none) (simp add: room_names_1)
lemma perimeter_rooms_2: "perimeter_walls (concat (map room_nodes rooms_2bhk)) = []"
  by (rule perimeter_walls_none) (simp add: room_names_2)
lemma perimeter_rooms_3: "perimeter_walls (concat (map room_nodes rooms_3bhk)) = []"
  by (rule perimeter_walls_none) (simp add: room_names_3)
lemma perimeter_rooms_4: "perimeter_walls (concat (map room_nodes rooms_4bhk)) = []"
  by (rule perimeter_walls_none) (simp add: room_names_4)

lemma perimeter_outer: "perimeter_walls (outer_walls max_x max_y t h) = outer_walls max_x max_y t h"
  by (simp add: perimeter_walls_def outer_walls_def Let_def)

lemma perimeter_plants: "perimeter_walls (create_outdoor_plants max_x max_y z) = []"
  by (rule perimeter_walls_none) (simp add: plant_names)

lemma perimeter_single:
  "name \<notin> set [''Wall_North'', ''Wall_South'', ''Wall_East'', ''Wall_West''] \<Longrightarrow>
   perimeter_walls [(name, m)] = []"
  by (simp add: perimeter_walls_def)

lemma perimeter_of_house_scene:
  assumes mx: "py_max (map (\<lambda>r. rm_x r + rm_w r) rooms) = Inr max_x"
    and my: "py_max (map (\<lambda>r. rm_y r + rm_d r) rooms) = Inr max_y"
    and rs: "perimeter_walls (concat (map room_nodes rooms)) = []"
    and iw: "create_internal_walls rooms 0.15 3.5 0 = []"
    and ds: "distinct (map fst (house_calls rooms max_x max_y))"
  shows "\<exists>scene. house_scene rooms = Inr scene \<and>
           perimeter_walls scene = outer_walls max_x max_y 0.25 3.5"
proof -
  have g: "perimeter_walls [(''Ground'', m)] = []" for m
    by (rule perimeter_single) simp
  have d: "perimeter_walls [(''Driveway'', m)] = []" for m
    by (rule perimeter_single) simp
  have e: "perimeter_walls [] = []"
    by (simp add: perimeter_walls_def)
  show ?thesis
    unfolding house_scene_eq[OF mx my ds] iw
    by (simp only: perimeter_walls_append rs g d e perimeter_outer perimeter_plants
        append_Nil append_Nil2 sum.inject simp_thms ex_simps)
qed

lemma outer_walls_ranges:
  "map (\<lambda>n. box_range (snd n)) (outer_walls max_x max_y 0.25 3.5) =
     [Some ((- 0.125, max_x + 0.125), (- 0.25, 0), (0, 3.5)),
      Some ((- 0.125, max_x + 0.125), (max_y, max_y + 0.25), (0, 3.5)),
      Some ((- 0.25, 0), (0, max_y), (0, 3.5)),
      Some ((max_x, max_x + 0.25), (0, max_y), (0, 3.5))]"
  by (simp add: outer_walls_def Let_def box_range_def placed_def field_simps)

lemma rooms_in_box_1:
  "list_all (\<lambda>r. 0 \<le> rm_x r \<and> rm_x r + rm_w r \<le> 8.5 \<and> 0 \<le> rm_y r \<and> rm_y r + rm_d r \<le> 8.5) rooms_1bhk"
  by (simp add: rooms_1bhk_def)
lemma rooms_in_box_2:
  "list_all (\<lambda>r. 0 \<le> rm_x r \<and> rm_x r + rm_w r \<le> 13.5 \<and> 0 \<le> rm_y r \<and> rm_y r + rm_d r \<le> 8) rooms_2bhk"
  by (simp add: rooms_2bhk_def)
lemma rooms_in_box_3:
  "list_all (\<lambda>r. 0 \<le> rm_x r \<and> rm_x r + rm_w r \<le> 13.5 \<and> 0 \<le> rm_y r \<and> rm_y r + rm_d r \<le> 12) rooms_3bhk"
  by (simp add: rooms_3bhk_def)
lemma rooms_in_box_4:
  "list_all (\<lambda>r. 0 \<le> rm_x r \<and> rm_x r + rm_w r \<le> 15 \<and> 0 \<le> rm_y r \<and> rm_y r + rm_d r \<le> 13.5) rooms_4bhk"
  by (simp add: rooms_4bhk_def)

lemma perimeter_template:
  assumes mx: "py_max (map (\<lambda>r. rm_x r + rm_w r) rooms) = Inr max_x"
    and my: "py_max (map (\<lambda>r. rm_y r + rm_d r) rooms) = Inr max_y"
    and rs: "perimeter_walls (concat (map room_nodes rooms)) = []"
    and iw: "create_internal_walls rooms 0.15 3.5 0 = []"
    and bx: "list_all (\<lambda>r. 0 \<le> rm_x r \<and> rm_x r + rm_w r \<le> max_x \<and>
                           0 \<le> rm_y r \<and> rm_y r + rm_d r \<le> max_y) rooms"
    and ds: "distinct (map fst (house_calls rooms max_x max_y))"
  shows "\<exists>scene max_x max_y.
     house_scene rooms = Inr scene \<and>
     py_max (map (\<lambda>r. rm_x r + rm_w r) rooms) = Inr max_x \<and>
     py_max (map (\<lambda>r. rm_y r + rm_d r) rooms) = Inr max_y \<and>
     list_all (\<lambda>r. 0 \<le> rm_x r \<and> rm_x r + rm_w r \<le> max_x \<and>
                    0 \<le> rm_y r \<and> rm_y r + rm_d r \<le> max_y) rooms \<and>
     map fst (perimeter_walls scene) = [''Wall_North'', ''Wall_South'', ''Wall_East'', ''Wall_West''] \<and>
     map (\<lambda>n. box_range (snd n)) (perimeter_walls scene) =
       [Some ((- 0.125, max_x + 0.125), (- 0.25, 0), (0, 3.5)),
        Some ((- 0.125, max_x + 0.125), (max_y, max_y + 0.25), (0, 3.5)),
        Some ((- 0.25, 0), (0, max_y), (0, 3.5)),
        Some ((max_x, max_x + 0.25), (0, max_y), (0, 3.5))]"
proof -
  from perimeter_of_house_scene[OF mx my rs iw ds] obtain scene where
    s: "house_scene rooms = Inr scene" "perimeter_walls scene = outer_walls max_x max_y 0.25 3.5"
    by blast
  show ?thesis
    using s mx my bx outer_wall_names[of max_x max_y "0.25" "3.5"] outer_walls_ranges[of max_x max_y]
    by (intro exI[of _ scene] exI[of _ max_x] exI[of _ max_y]) simp
qed

text \<open>
  Claim C8. Whatever the room count, the template scene has exactly four nodes named as
  outer walls, north, south, east and west in this order. With \<open>max_x\<close> and \<open>max_y\<close> the
  far corner of the rooms' bounding box (every room lies between the origin and that
  corner), each wall is a box 0.25 thick that rises from 0 to 3.5 and lies against the
  outside of the box: the north wall fills \<open>y\<close> from -0.25 to 0, the south wall \<open>y\<close> from
  \<open>max_y\<close> to \<open>max_y + 0.25\<close>, the east wall \<open>x\<close> from -0.25 to 0 and the west wall \<open>x\<close>
  from \<open>max_x\<close> to \<open>max_x + 0.25\<close>. The area is a float here; an int area that converts
  to a float gives the same scene (\<open>template_of_int_area\<close> below).
\<close>

theorem perimeter_walls_of_template_scene:
  "\<exists>scene max_x max_y.
     generate_realistic_house_glb bhk sqft = Inr scene \<and>
     py_max (map (\<lambda>r. rm_x r + rm_w r) (house_rooms bhk)) = Inr max_x \<and>
     py_max (map (\<lambda>r. rm_y r + rm_d r) (house_rooms bhk)) = Inr max_y \<and>
     list_all (\<lambda>r. 0 \<le> rm_x r \<and> rm_x r + rm_w r \<le> max_x \<and>
                    0 \<le> rm_y r \<and> rm_y r + rm_d r \<le> max_y) (house_rooms bhk) \<and>
     map fst (perimeter_walls scene) = [''Wall_North'', ''Wall_South'', ''Wall_East'', ''Wall_West''] \<and>
     map (\<lambda>n. box_range (snd n)) (perimeter_walls scene) =
       [Some ((- 0.125, max_x + 0.125), (- 0.25, 0), (0, 3.5)),
        Some ((- 0.125, max_x + 0.125), (max_y, max_y + 0.25), (0, 3.5)),
        Some ((- 0.25, 0), (0, max_y), (0, 3.5)),
        Some ((max_x, max_x + 0.25), (0, max_y), (0, 3.5))]"
proof -
  have g: "generate_realistic_house_glb bhk sqft = house_scene (house_rooms bhk)"
    by (rule generate_realistic_house_glb_code)
  consider "house_rooms bhk = rooms_1bhk" | "house_rooms bhk = rooms_2bhk"
    | "house_rooms bhk = rooms_3bhk" | "house_rooms bhk = rooms_4bhk"
    using house_rooms_cases[of bhk] by blast
  then show ?thesis
  proof cases
    case 1
    show ?thesis unfolding g 1
      by (rule perimeter_template[OF py_max_x_1 py_max_y_1 perimeter_rooms_1 internal_walls_1
            rooms_in_box_1 distinct_1])
  next
    case 2
    show ?thesis unfolding g 2
      by (rule perimeter_template[OF py_max_x_2 py_max_y_2 perimeter_rooms_2 internal_walls_2
            rooms_in_box_2 distinct_2])
  next
    case 3
    show ?thesis unfolding g 3
      by (rule perimeter_template[OF py_max_x_3 py_max_y_3 perimeter_rooms_3 internal_walls_3
            rooms_in_box_3 distinct_3])
  next
    case 4
    show ?thesis unfolding g 4
      by (rule perimeter_template[OF py_max_x_4 py_max_y_4 perimeter_rooms_4 internal_walls_4
            rooms_in_box_4 distinct_4])
  qed
qed

lemma house_scene_2bhk: "house_scene rooms_2bhk = Inr scene_2bhk"
  unfolding house_scene_eq[OF py_max_x_2 py_max_y_2 distinct_2] internal_walls_2 scene_2bhk_def
  by simp

lemma names_2bhk:
  "map fst scene_2bhk =
     [''Living Room_floor'', ''Living Room_Sofa'', ''Living Room_Table'',
      ''Bedroom 1_floor'', ''Bedroom 1_Bed'', ''Bedroom 1_Nightstand'',
      ''Bedroom 2_floor'', ''Bedroom 2_Bed'', ''Bedroom 2_Nightstand'',
      ''Kitchen_floor'', ''Kitchen_Counter'', ''Bathroom_floor'', ''Bathroom_Toilet'',
      ''Dining_floor'', ''Dining_Dining_Table'',
      ''Ground'', ''Wall_North'', ''Wall_South'', ''Wall_East'', ''Wall_West'',
      ''Tree_1_trunk'', ''Tree_1_foliage'', ''Tree_2_trunk'', ''Tree_2_foliage'',
      ''Tree_3_trunk'', ''Tree_3_foliage'', ''Tree_4_trunk'', ''Tree_4_foliage'',
      ''Driveway'']"
  unfolding scene_2bhk_def
  by (simp add: room_names_2 outer_wall_names plant_names)

lemma no_rooms_is_template:
  "generate_glb_from_json JNull bhk sqft = generate_realistic_house_glb bhk sqft"
  "generate_final_glb JNull bhk sqft = generate_realistic_house_glb bhk sqft"
  by (simp_all add: generate_glb_from_json_def generate_glb_from_json_num_def
      glb_from_json_body_def rooms_of_def truthy_def generate_final_glb_def
      generate_final_glb_num_def generate_realistic_house_glb_def split: sum.splits)

text \<open>
  Claim C5. Built for room count 2 without structured rooms (\<open>None\<close>), by either entry
  point, the scene has as nodes whose name ends in \<open>_floor\<close> exactly the six room floors,
  as nodes whose name starts with \<open>Wall_\<close> exactly the four outer walls, four trunks and
  four foliage cones, one node \<open>Ground\<close> and one node \<open>Driveway\<close>. The area is a float
  here; an int area that converts to a float gives the same scene
  (\<open>no_rooms_of_int_area\<close> below).
\<close>

theorem two_bhk_scene_nodes:
  "\<exists>scene.
     generate_final_glb JNull 2 sqft = Inr scene \<and>
     generate_glb_from_json JNull 2 sqft = Inr scene \<and>
     filter (\<lambda>n. endswith n ''_floor'') (map fst scene) =
       [''Living Room_floor'', ''Bedroom 1_floor'', ''Bedroom 2_floor'',
        ''Kitchen_floor'', ''Bathroom_floor'', ''Dining_floor''] \<and>
     filter (\<lambda>n. startswith n ''Wall_'') (map fst scene) =
       [''Wall_North'', ''Wall_South'', ''Wall_East'', ''Wall_West''] \<and>
     length (filter (\<lambda>n. endswith n ''_trunk'') (map fst scene)) = 4 \<and>
     length (filter (\<lambda>n. endswith n ''_foliage'') (map fst scene)) = 4 \<and>
     count_list (map fst scene) ''Ground'' = 1 \<and>
     count_list (map fst scene) ''Driveway'' = 1"
proof -
  have g: "generate_realistic_house_glb 2 sqft = Inr scene_2bhk"
    using house_scene_2bhk by (simp add: generate_realistic_house_glb_code house_rooms_def)
  have g1: "generate_final_glb JNull 2 sqft = Inr scene_2bhk"
    by (simp only: no_rooms_is_template g)
  have g2: "generate_glb_from_json JNull 2 sqft = Inr scene_2bhk"
    by (simp only: no_rooms_is_template g)
  have f: "filter (\<lambda>n. endswith n ''_floor'') (map fst scene_2bhk) =
       [''Living Room_floor'', ''Bedroom 1_floor'', ''Bedroom 2_floor'',
        ''Kitchen_floor'', ''Bathroom_floor'', ''Dining_floor'']"
    unfolding names_2bhk by (simp add: endswith_def)
  have w: "filter (\<lambda>n. startswith n ''Wall_'') (map fst scene_2bhk) =
       [''Wall_North'', ''Wall_South'', ''Wall_East'', ''Wall_West'']"
    unfolding names_2bhk by simp
  have t: "length (filter (\<lambda>n. endswith n ''_trunk'') (map fst scene_2bhk)) = 4"
    unfolding names_2bhk by (simp add: endswith_def)
  have l: "length (filter (\<lambda>n. endswith n ''_foliage'') (map fst scene_2bhk)) = 4"
    unfolding names_2bhk by (simp add: endswith_def)
  have c1: "count_list (map fst scene_2bhk) ''Ground'' = 1"
    unfolding names_2bhk by simp
  have c2: "count_list (map fst scene_2bhk) ''Driveway'' = 1"
    unfolding names_2bhk by simp
  show ?thesis
    by (intro exI[of _ scene_2bhk] conjI) (fact g1 g2 f w t l c1 c2)+
qed

subsection \<open>The area argument\<close>

lemma float_limit_large: "2 ^ 64 < float_limit"
  by (simp add: float_limit_def)

lemma float_of_int_small:
  "- (2 ^ 64) \<le> n \<Longrightarrow> n \<le> 2 ^ 64 \<Longrightarrow> float_of_int n = Inr (real_of_int n)"
  using float_limit_large by (simp add: float_of_int_def)

lemma float_limit_below: "float_limit \<le> 2 ^ 1024"
proof -
  have "a - b \<le> a" if "0 \<le> b" for a b :: int
    using that by simp
  from this[of "2 ^ 970" "2 ^ 1024"] show ?thesis
    unfolding float_limit_def by simp
qed

lemma float_of_int_over: "float_limit \<le> n \<Longrightarrow> float_of_int n = Inl OverflowError"
  by (simp add: float_of_int_def)

lemma float_of_int_huge: "float_of_int (2 ^ 1024) = Inl OverflowError"
  by (rule float_of_int_over) (rule float_limit_below)

lemma py_float_huge: "py_float (PyInt (2 ^ 1024)) = Inl OverflowError"
  unfolding py_float_def py_num.case by (rule float_of_int_huge)

lemma and_then_Inr: "and_then (Inr x) f = f x"
  by (simp add: and_then_def)

lemma and_then_Inl: "and_then (Inl e) f = Inl e"
  by (simp add: and_then_def)

lemma and_then_isl: "isl m \<Longrightarrow> isl (and_then m f)"
  by (cases m) (simp_all add: and_then_def)

lemma template_of_float:
  "py_float sqft = Inr area \<Longrightarrow>
   generate_realistic_house_glb_num bhk sqft = house_scene (house_rooms bhk)"
  by (simp add: generate_realistic_house_glb_num_def and_then_Inr Let_def)

lemma template_raises:
  "py_float sqft = Inl e \<Longrightarrow> generate_realistic_house_glb_num bhk sqft = Inl e"
  by (simp add: generate_realistic_house_glb_num_def and_then_Inl)

lemma house_scene_ok:
  assumes "py_max (map (\<lambda>r. rm_x r + rm_w r) rooms) = Inr max_x"
    and "py_max (map (\<lambda>r. rm_y r + rm_d r) rooms) = Inr max_y"
  shows "\<exists>scene. house_scene rooms = Inr scene"
  unfolding house_scene_calls[OF assms] by (rule exI) (rule refl)

lemma template_scene_ok: "\<exists>scene. house_scene (house_rooms bhk) = Inr scene"
proof -
  consider "house_rooms bhk = rooms_1bhk" | "house_rooms bhk = rooms_2bhk"
    | "house_rooms bhk = rooms_3bhk" | "house_rooms bhk = rooms_4bhk"
    using house_rooms_cases[of bhk] by blast
  then show ?thesis
  proof cases
    case 1 show ?thesis unfolding 1 by (rule house_scene_ok[OF py_max_x_1 py_max_y_1])
  next
    case 2 show ?thesis unfolding 2 by (rule house_scene_ok[OF py_max_x_2 py_max_y_2])
  next
    case 3 show ?thesis unfolding 3 by (rule house_scene_ok[OF py_max_x_3 py_max_y_3])
  next
    case 4 show ?thesis unfolding 4 by (rule house_scene_ok[OF py_max_x_4 py_max_y_4])
  qed
qed

lemma template_ok:
  "py_float sqft = Inr area \<Longrightarrow> \<exists>scene. generate_realistic_house_glb_num bhk sqft = Inr scene"
  using template_scene_ok[of bhk] by (simp add: template_of_float)

lemma template_2bhk: "generate_realistic_house_glb_num 2 (PyInt 1000) = Inr scene_2bhk"
proof -
  have "py_float (PyInt 1000) = Inr 1000"
    by (simp add: py_float_def float_of_int_small)
  from template_of_float[OF this, of 2] show ?thesis
    by (simp add: house_rooms_def house_scene_2bhk)
qed

text \<open>
  An int area that converts to a float gives the scene of the function at that float.
\<close>

lemma template_of_int_area:
  "py_float sqft = Inr area \<Longrightarrow>
   generate_realistic_house_glb_num bhk sqft = generate_realistic_house_glb bhk area"
  by (simp add: template_of_float generate_realistic_house_glb_code)

lemma no_rooms_of_int_area:
  assumes "py_float sqft = Inr area"
  shows "generate_glb_from_json_num JNull bhk sqft = generate_glb_from_json JNull bhk area"
    and "generate_final_glb_num JNull bhk sqft = generate_final_glb JNull bhk area"
  using template_of_int_area[OF assms, of bhk]
  by (simp_all add: no_rooms_is_template generate_glb_from_json_num_def glb_from_json_body_def
      rooms_of_def truthy_def generate_final_glb_num_def split: sum.splits)

text \<open>
  Claim C10, restricted to the areas on which the generator returns. For two positive
  areas that are floats, or ints that convert to a float (below \<open>2 ^ 1024 - 2 ^ 970\<close>),
  the two scenes are the same scene: the square metres and the side length computed from
  the area are never read.
\<close>

theorem template_scene_ignores_area:
  assumes "py_float sqft1 = Inr area1" and "0 < area1"
    and "py_float sqft2 = Inr area2" and "0 < area2"
  shows "generate_realistic_house_glb_num bhk sqft1 = generate_realistic_house_glb_num bhk sqft2 \<and>
         (\<exists>scene. generate_realistic_house_glb_num bhk sqft1 = Inr scene)"
  using template_scene_ok[of bhk]
  by (simp add: template_of_float[OF assms(1)] template_of_float[OF assms(3)])

theorem template_scene_ignores_area_witness:
  "py_float (PyInt 600) = Inr 600 \<and> py_float (PyFloat 2400.5) = Inr 2400.5 \<and>
   generate_realistic_house_glb_num 2 (PyInt 600) = generate_realistic_house_glb_num 2 (PyFloat 2400.5) \<and>
   (\<exists>scene. generate_realistic_house_glb_num 2 (PyInt 600) = Inr scene)"
proof -
  have a: "py_float (PyInt 600) = Inr 600"
    by (simp add: py_float_def float_of_int_small)
  have b: "py_float (PyFloat 2400.5) = Inr 2400.5"
    by (simp add: py_float_def)
  have p: "(0::real) < 600" "(0::real) < 2400.5"
    by simp_all
  from template_scene_ignores_area[OF a p(1) b p(2), of 2] a b show ?thesis
    by blast
qed

text \<open>
  Claim C10 as stated fails: the area is an operand of a float product, so a positive int
  area from \<open>2 ^ 1024 - 2 ^ 970\<close> on makes the generator raise \<open>OverflowError\<close>, where the
  area 1000 gives the scene of the template.
\<close>

theorem area_overflow_counterexample:
  "generate_realistic_house_glb_num 2 (PyInt 1000) = Inr scene_2bhk \<and>
   generate_realistic_house_glb_num 2 (PyInt (2 ^ 1024)) = Inl OverflowError \<and>
   generate_realistic_house_glb_num 2 (PyInt 1000) \<noteq>
     generate_realistic_house_glb_num 2 (PyInt (2 ^ 1024))"
proof -
  have h: "generate_realistic_house_glb_num 2 (PyInt (2 ^ 1024)) = Inl OverflowError"
    by (rule template_raises[OF py_float_huge])
  show ?thesis
    unfolding template_2bhk h by simp
qed

subsection \<open>Structured room data\<close>

lemma is_dict_field_dims:
  "is_dict r \<Longrightarrow>
   is_dict (field r ''dimensions'' (JObj [(''length'', JInt 10), (''width'', JInt 10), (''height'', JInt 10)]))
     = is_dict (field r ''dimensions'' (JObj []))"
  by (cases r) (simp_all add: field_def is_dict_def split: option.splits)

lemma is_dict_field_pos:
  "is_dict r \<Longrightarrow>
   is_dict (field r ''position'' (JObj [(''x'', JInt 0), (''y'', JInt 0), (''z'', JInt 0)]))
     = is_dict (field r ''position'' (JObj []))"
  by (cases r) (simp_all add: field_def is_dict_def split: option.splits)

lemma field_dims_default:
  "is_dict r \<Longrightarrow> side \<in> {''length'', ''width'', ''height''} \<Longrightarrow>
   field (field r ''dimensions'' (JObj [(''length'', JInt 10), (''width'', JInt 10), (''height'', JInt 10)])) side (JInt 10)
     = field (field r ''dimensions'' (JObj [])) side (JInt 10)"
  by (cases r) (auto simp: field_def is_dict_def split: option.splits)

lemma field_pos_default:
  "is_dict r \<Longrightarrow> axis \<in> {''x'', ''y''} \<Longrightarrow>
   field (field r ''position'' (JObj [(''x'', JInt 0), (''y'', JInt 0), (''z'', JInt 0)])) axis (JInt 0)
     = field (field r ''position'' (JObj [])) axis (JInt 0)"
  by (cases r) (auto simp: field_def is_dict_def split: option.splits)

lemma and_then_InrE:
  assumes "and_then m f = Inr y"
  obtains x where "m = Inr x" and "f x = Inr y"
  using assms by (cases m) (simp_all add: and_then_def)

lemma py_get_InrD: "py_get v key dflt = Inr x \<Longrightarrow> is_dict v \<and> x = field v key dflt"
  by (cases v) (simp_all add: py_get_def is_dict_def field_def)

lemma py_number_InrD: "py_number v = Inr x \<Longrightarrow> float_operand v"
  by (cases v) (simp_all add: py_number_def float_operand_def float_of_int_def split: if_splits)

lemma np_number_InrD: "np_number v = Inr x \<Longrightarrow> float_operand v"
  using float_limit_large
  by (cases v) (auto simp: np_number_def float_operand_def split: if_splits)

lemma py_lower_InrD: "py_lower v = Inr s \<Longrightarrow> is_str v"
  by (cases v) (simp_all add: py_lower_def is_str_def)

text \<open>The body of the loop raises on a malformed entry.\<close>

lemma room_box_good:
  assumes "room_box r = Inr node"
  shows "readable_room r"
  using assms unfolding room_box_def Let_def
  by (auto elim!: and_then_InrE dest!: py_get_InrD py_number_InrD np_number_InrD py_lower_InrD
      simp: readable_room_def is_dict_field_dims is_dict_field_pos field_dims_default
        field_pos_default)

lemma room_box_bad: "\<not> readable_room r \<Longrightarrow> isl (room_box r)"
  using room_box_good[of r] by (cases "room_box r") auto

lemma add_rooms_bad: "\<not> list_all readable_room rs \<Longrightarrow> isl (add_rooms rs acc)"
proof (induction rs arbitrary: acc)
  case Nil
  then show ?case by simp
next
  case (Cons r rs)
  show ?case
  proof (cases "room_box r")
    case (Inl e)
    then show ?thesis by (simp add: and_then_Inl)
  next
    case (Inr n)
    then have "readable_room r" by (rule room_box_good)
    with Cons.prems have "\<not> list_all readable_room rs" by simp
    from Cons.IH[OF this] Inr show ?thesis by (simp add: and_then_Inr)
  qed
qed

lemma fallback_on_error:
  "isl (glb_from_json_body room_data bhk sqft) \<Longrightarrow>
   generate_glb_from_json_num room_data bhk sqft = generate_realistic_house_glb_num bhk sqft"
  by (cases "glb_from_json_body room_data bhk sqft") (simp_all add: generate_glb_from_json_num_def)

lemma no_rooms_falls_back:
  "\<not> truthy (rooms_of room_data) \<Longrightarrow>
   generate_glb_from_json_num room_data bhk sqft = generate_realistic_house_glb_num bhk sqft"
  by (simp add: generate_glb_from_json_num_def glb_from_json_body_def Let_def split: sum.splits)

lemma malformed_list_raises:
  assumes "\<not> list_all readable_room rs"
  shows "isl (rooms_scene (JArr rs))"
  by (simp add: rooms_scene_def py_iter_def and_then_Inr and_then_isl add_rooms_bad[OF assms])

lemma malformed_list_falls_back:
  assumes "rooms_of room_data = JArr rs" and "rs = [] \<or> \<not> list_all readable_room rs"
  shows "generate_glb_from_json_num room_data bhk sqft = generate_realistic_house_glb_num bhk sqft"
proof (cases "rs = []")
  case True
  with assms(1) show ?thesis by (simp add: no_rooms_falls_back truthy_def)
next
  case False
  with assms(2) have m: "\<not> list_all readable_room rs" by simp
  have "isl (glb_from_json_body room_data bhk sqft)"
    using False malformed_list_raises[OF m]
    by (simp add: glb_from_json_body_def Let_def assms(1) truthy_def)
  then show ?thesis by (rule fallback_on_error)
qed

lemma non_list_raises:
  assumes "truthy v" and "\<forall>rs. v \<noteq> JArr rs"
  shows "isl (rooms_scene v)"
proof (cases v)
  case (JObj kvs)
  with assms(1) obtain kv rest where "kvs = kv # rest" by (cases kvs) (auto simp: truthy_def)
  with JObj show ?thesis
    by (simp add: rooms_scene_def py_iter_def and_then_Inr and_then_Inl room_box_def py_get_def)
next
  case (JStr s)
  with assms(1) obtain c rest where "s = c # rest" by (cases s) (auto simp: truthy_def)
  with JStr show ?thesis
    by (simp add: rooms_scene_def py_iter_def and_then_Inr and_then_Inl room_box_def py_get_def)
next
  case JNull
  with assms(1) show ?thesis by (simp add: truthy_def)
next
  case (JBool b)
  then show ?thesis by (simp add: rooms_scene_def py_iter_def and_then_Inl)
next
  case (JInt n)
  then show ?thesis by (simp add: rooms_scene_def py_iter_def and_then_Inl)
next
  case (JFloat x)
  then show ?thesis by (simp add: rooms_scene_def py_iter_def and_then_Inl)
next
  case (JArr rs)
  with assms(2) show ?thesis by simp
qed

lemma non_list_falls_back:
  assumes "\<forall>rs. rooms_of room_data \<noteq> JArr rs"
  shows "generate_glb_from_json_num room_data bhk sqft = generate_realistic_house_glb_num bhk sqft"
proof (cases "truthy (rooms_of room_data)")
  case True
  have "isl (glb_from_json_body room_data bhk sqft)"
    using non_list_raises[OF True assms] True by (simp add: glb_from_json_body_def Let_def)
  then show ?thesis by (rule fallback_on_error)
next
  case False
  then show ?thesis by (rule no_rooms_falls_back)
qed

text \<open>
  Claim C1, as the code has it. For a positive area that is a float, or an int that
  converts to a float (below \<open>2 ^ 1024 - 2 ^ 970\<close>), the template generator returns a
  scene, and the builder returns that same scene, for the same room count and area, in
  each of these cases: the description holds no list of rooms (it is not a dict, has no
  \<open>rooms\<close>, or its \<open>rooms\<close> is not a list); the list is empty; some entry of the list is
  malformed, which means that the entry is not a dict, or its \<open>dimensions\<close> or \<open>position\<close>
  is present and not a dict, or one of \<open>length\<close>, \<open>width\<close>, \<open>height\<close>, \<open>x\<close>, \<open>y\<close> is
  present and not a number within the float range, or its \<open>name\<close> is present and not a
  string.
\<close>

theorem malformed_rooms_fall_back:
  assumes "py_float sqft = Inr area" and "0 < area"
  shows "(\<exists>scene. generate_realistic_house_glb_num bhk sqft = Inr scene) \<and>
   ((\<forall>rs. rooms_of room_data \<noteq> JArr rs) \<longrightarrow>
      generate_glb_from_json_num room_data bhk sqft = generate_realistic_house_glb_num bhk sqft) \<and>
   (\<forall>rs. rooms_of room_data = JArr rs \<and> (rs = [] \<or> \<not> list_all readable_room rs) \<longrightarrow>
      generate_glb_from_json_num room_data bhk sqft = generate_realistic_house_glb_num bhk sqft)"
proof (intro conjI impI allI)
  show "\<exists>scene. generate_realistic_house_glb_num bhk sqft = Inr scene"
    by (rule template_ok[OF assms(1)])
next
  assume "\<forall>rs. rooms_of room_data \<noteq> JArr rs"
  then show "generate_glb_from_json_num room_data bhk sqft = generate_realistic_house_glb_num bhk sqft"
    by (rule non_list_falls_back)
next
  fix rs
  assume "rooms_of room_data = JArr rs \<and> (rs = [] \<or> \<not> list_all readable_room rs)"
  then show "generate_glb_from_json_num room_data bhk sqft = generate_realistic_house_glb_num bhk sqft"
    using malformed_list_falls_back by blast
qed

theorem malformed_rooms_fall_back_witness:
  "py_float (PyInt 1000) = Inr 1000 \<and> (0::real) < 1000 \<and>
   (\<exists>scene. generate_realistic_house_glb_num 2 (PyInt 1000) = Inr scene) \<and>
   \<not> readable_room (JStr ''kitchen'') \<and>
   generate_glb_from_json_num (JObj [(''rooms'', JArr [JStr ''kitchen''])]) 2 (PyInt 1000) =
     generate_realistic_house_glb_num 2 (PyInt 1000) \<and>
   \<not> readable_room (JObj [(''name'', JStr ''Hall''), (''dimensions'', JStr ''big'')]) \<and>
   generate_glb_from_json_num
     (JObj [(''rooms'', JArr [JObj [(''name'', JStr ''Hall''), (''dimensions'', JStr ''big'')]])])
     2 (PyInt 1000) = generate_realistic_house_glb_num 2 (PyInt 1000) \<and>
   generate_glb_from_json_num (JObj [(''rooms'', JStr ''none'')]) 2 (PyInt 1000) =
     generate_realistic_house_glb_num 2 (PyInt 1000) \<and>
   generate_glb_from_json_num (JObj [(''rooms'', JArr [])]) 2 (PyInt 1000) =
     generate_realistic_house_glb_num 2 (PyInt 1000) \<and>
   \<not> readable_room (JObj [(''dimensions'', JObj [(''length'', JInt (2 ^ 1024))])]) \<and>
   generate_glb_from_json_num
     (JObj [(''rooms'', JArr [JObj [(''dimensions'', JObj [(''length'', JInt (2 ^ 1024))])]])])
     2 (PyInt 1000) = generate_realistic_house_glb_num 2 (PyInt 1000)"
  using
    malformed_rooms_fall_back[where sqft = "PyInt 1000" and area = 1000 and bhk = 2
      and room_data =
        "JObj [(''rooms'', JArr [JObj [(''dimensions'', JObj [(''length'', JInt (2 ^ 1024))])]])]"]
    malformed_rooms_fall_back[where sqft = "PyInt 1000" and area = 1000 and bhk = 2
      and room_data = "JObj [(''rooms'', JArr [JStr ''kitchen''])]"]
    malformed_rooms_fall_back[where sqft = "PyInt 1000" and area = 1000 and bhk = 2
      and room_data =
        "JObj [(''rooms'', JArr [JObj [(''name'', JStr ''Hall''), (''dimensions'', JStr ''big'')]])]"]
    malformed_rooms_fall_back[where sqft = "PyInt 1000" and area = 1000 and bhk = 2
      and room_data = "JObj [(''rooms'', JStr ''none'')]"]
    malformed_rooms_fall_back[where sqft = "PyInt 1000" and area = 1000 and bhk = 2
      and room_data = "JObj [(''rooms'', JArr [])]"]
  by (simp add: py_float_def float_of_int_small rooms_of_def readable_room_def is_dict_def
      field_def float_operand_def float_limit_def)

lemma hall_scene:
  "rooms_scene (JArr [JObj [(''name'', JStr ''Hall'')]]) =
     Inr [(''Hall'', placed (Box (10 / 3.28) (10 / 3.28) (10 / 3.28)) (0, 0, 10 / 3.28 / 2)
            [180, 180, 180, 255]),
          (''floor'', placed (Box (10 / 3.28 + 2) (10 / 3.28 + 2) 0.1)
            (10 / 3.28 / 2, 10 / 3.28 / 2, - 0.05) [220, 220, 220, 255])]"
  by (simp add: rooms_scene_def py_iter_def room_box_def room_far_edge_def py_get_def
      py_number_def np_number_def float_of_int_small py_lower_def node_name_def and_then_def
      Let_def pick_color_def room_colors_def lower_def lower_char_def py_max_def)

lemma structured_path:
  "rooms_of room_data = JArr rs \<Longrightarrow> rs \<noteq> [] \<Longrightarrow> rooms_scene (JArr rs) = Inr scene \<Longrightarrow>
   generate_glb_from_json_num room_data bhk sqft = Inr scene"
  by (simp add: generate_glb_from_json_num_def glb_from_json_body_def truthy_def Let_def)

lemma two_nodes_not_template: "[a, b] \<noteq> scene_2bhk"
proof
  assume e: "[a, b] = scene_2bhk"
  have "length scene_2bhk = 29"
    using arg_cong[OF names_2bhk, of length] by simp
  moreover have "length [a, b] = length scene_2bhk"
    by (rule arg_cong[OF e])
  ultimately show False by simp
qed

text \<open>
  Claim C1 as stated fails twice. The room entry \<open>{"name": "Hall"}\<close> misses \<open>dimensions\<close>
  and reaches no handler: \<open>get\<close> supplies the defaults (10 feet each way, the origin) and
  the scene is the box of the room and the floor slab, not the template scene for the same
  room count and area. And for the positive area \<open>2 ^ 1024\<close> the builder raises on a
  malformed description: the handler calls the template generator outside of any \<open>try\<close>.
\<close>

theorem missing_dimensions_counterexample:
  "generate_glb_from_json_num (JObj [(''rooms'', JArr [JObj [(''name'', JStr ''Hall'')]])]) 2 (PyInt 1000) =
     Inr [(''Hall'', placed (Box (10 / 3.28) (10 / 3.28) (10 / 3.28)) (0, 0, 10 / 3.28 / 2)
            [180, 180, 180, 255]),
          (''floor'', placed (Box (10 / 3.28 + 2) (10 / 3.28 + 2) 0.1)
            (10 / 3.28 / 2, 10 / 3.28 / 2, - 0.05) [220, 220, 220, 255])] \<and>
   generate_glb_from_json_num (JObj [(''rooms'', JArr [JObj [(''name'', JStr ''Hall'')]])]) 2 (PyInt 1000) \<noteq>
     generate_realistic_house_glb_num 2 (PyInt 1000) \<and>
   generate_glb_from_json_num (JObj [(''rooms'', JArr [JStr ''kitchen''])]) 2 (PyInt (2 ^ 1024)) =
     Inl OverflowError"
proof -
  have r: "rooms_of (JObj [(''rooms'', JArr [JObj [(''name'', JStr ''Hall'')]])]) =
      JArr [JObj [(''name'', JStr ''Hall'')]]"
    by (simp add: rooms_of_def)
  have ne: "[JObj [(''name'', JStr ''Hall'')]] \<noteq> []"
    by simp
  note a = structured_path[OF r ne hall_scene, of 2 "PyInt 1000"]
  have k: "rooms_of (JObj [(''rooms'', JArr [JStr ''kitchen''])]) = JArr [JStr ''kitchen'']"
    by (simp add: rooms_of_def)
  have m: "[JStr ''kitchen''] = [] \<or> \<not> list_all readable_room [JStr ''kitchen'']"
    by (simp add: readable_room_def is_dict_def)
  have c: "generate_glb_from_json_num (JObj [(''rooms'', JArr [JStr ''kitchen''])]) 2 (PyInt (2 ^ 1024)) =
      Inl OverflowError"
    unfolding malformed_list_falls_back[OF k m] by (rule template_raises[OF py_float_huge])
  have b: "generate_glb_from_json_num (JObj [(''rooms'', JArr [JObj [(''name'', JStr ''Hall'')]])]) 2 (PyInt 1000) \<noteq>
      generate_realistic_house_glb_num 2 (PyInt 1000)"
    unfolding a template_2bhk by (simp only: sum.inject two_nodes_not_template simp_thms)
  show ?thesis
    by (intro conjI) (fact a b c)+
qed

subsection \<open>The floor slab of the structured path\<close>

lemma prompt_example_scene:
  "rooms_scene (JArr [
       JObj [(''name'', JStr ''Master Bedroom''),
             (''dimensions'', JObj [(''length'', JInt 14), (''width'', JInt 12), (''height'', JInt 10)]),
             (''position'', JObj [(''x'', JInt 0), (''y'', JInt 0), (''z'', JInt 0)]),
             (''features'', JArr [JStr ''attached_bathroom'', JStr ''balcony''])]]) =
     Inr [(''Master Bedroom'',
            placed (Box (14 / 3.28) (12 / 3.28) (10 / 3.28)) (0, 0, 10 / 3.28 / 2)
              [200, 150, 150, 255]),
          (''floor'',
            placed (Box (14 / 3.28 + 2) (12 / 3.28 + 2) 0.1) (14 / 3.28 / 2, 12 / 3.28 / 2, - 0.05)
              [220, 220, 220, 255])]"
  by (simp add: rooms_scene_def py_iter_def room_box_def room_far_edge_def py_get_def
      py_number_def np_number_def float_of_int_small py_lower_def node_name_def and_then_def
      Let_def pick_color_def room_colors_def lower_def lower_char_def py_max_def)

text \<open>
  The scene keeps one node per name: a room named \<open>floor\<close> loses its node to the slab.
\<close>

lemma room_named_floor_is_replaced:
  "rooms_scene (JArr [JObj [(''name'', JStr ''floor'')]]) =
     Inr [(''floor'', placed (Box (10 / 3.28 + 2) (10 / 3.28 + 2) 0.1)
            (10 / 3.28 / 2, 10 / 3.28 / 2, - 0.05) [220, 220, 220, 255])]"
  by (simp add: rooms_scene_def py_iter_def room_box_def room_far_edge_def py_get_def
      py_number_def np_number_def float_of_int_small py_lower_def node_name_def and_then_def
      Let_def pick_color_def room_colors_def lower_def lower_char_def py_max_def)

text \<open>
  Claim C7 fails on the code. For the room of the prompt's own example, 14 by 12 feet at
  the position (0, 0), the scene is the box of the room and the floor slab. The box is
  centred on the position, so it fills \<open>x\<close> from -2.13 to 2.13 and \<open>y\<close> from -1.83 to 1.83
  (metres); the slab is laid out for a room whose corner is at the position and fills \<open>x\<close>
  from -1 to 5.27 and \<open>y\<close> from -1 to 4.66. The room leaves the slab on two sides.
\<close>

theorem structured_room_leaves_floor_slab:
  "generate_glb_from_json_num prompt_example 2 (PyInt 1000) =
     Inr [(''Master Bedroom'',
            placed (Box (14 / 3.28) (12 / 3.28) (10 / 3.28)) (0, 0, 10 / 3.28 / 2)
              [200, 150, 150, 255]),
          (''floor'',
            placed (Box (14 / 3.28 + 2) (12 / 3.28 + 2) 0.1) (14 / 3.28 / 2, 12 / 3.28 / 2, - 0.05)
              [220, 220, 220, 255])] \<and>
   box_range (placed (Box (14 / 3.28) (12 / 3.28) (10 / 3.28)) (0, 0, 10 / 3.28 / 2)
       [200, 150, 150, 255]) =
     Some ((- (7 / 3.28), 7 / 3.28), (- (6 / 3.28), 6 / 3.28), (0, 10 / 3.28)) \<and>
   box_range (placed (Box (14 / 3.28 + 2) (12 / 3.28 + 2) 0.1) (14 / 3.28 / 2, 12 / 3.28 / 2, - 0.05)
       [220, 220, 220, 255]) =
     Some ((- 1, 14 / 3.28 + 1), (- 1, 12 / 3.28 + 1), (- 0.1, 0)) \<and>
   - (7 / 3.28) < (- 1 :: real) \<and> - (6 / 3.28) < (- 1 :: real) \<and>
   \<not> footprint_within
       (placed (Box (14 / 3.28) (12 / 3.28) (10 / 3.28)) (0, 0, 10 / 3.28 / 2) [200, 150, 150, 255])
       (placed (Box (14 / 3.28 + 2) (12 / 3.28 + 2) 0.1) (14 / 3.28 / 2, 12 / 3.28 / 2, - 0.05)
          [220, 220, 220, 255])"
proof -
  have r: "rooms_of prompt_example = JArr [
       JObj [(''name'', JStr ''Master Bedroom''),
             (''dimensions'', JObj [(''length'', JInt 14), (''width'', JInt 12), (''height'', JInt 10)]),
             (''position'', JObj [(''x'', JInt 0), (''y'', JInt 0), (''z'', JInt 0)]),
             (''features'', JArr [JStr ''attached_bathroom'', JStr ''balcony''])]]"
    by (simp add: prompt_example_def rooms_of_def)
  have a: "generate_glb_from_json_num prompt_example 2 (PyInt 1000) =
     Inr [(''Master Bedroom'',
            placed (Box (14 / 3.28) (12 / 3.28) (10 / 3.28)) (0, 0, 10 / 3.28 / 2)
              [200, 150, 150, 255]),
          (''floor'',
            placed (Box (14 / 3.28 + 2) (12 / 3.28 + 2) 0.1) (14 / 3.28 / 2, 12 / 3.28 / 2, - 0.05)
              [220, 220, 220, 255])]"
    by (rule structured_path[OF r _ prompt_example_scene]) simp
  have b: "box_range (placed (Box (14 / 3.28) (12 / 3.28) (10 / 3.28)) (0, 0, 10 / 3.28 / 2)
       [200, 150, 150, 255]) =
     Some ((- (7 / 3.28), 7 / 3.28), (- (6 / 3.28), 6 / 3.28), (0, 10 / 3.28))"
    by (simp add: box_range_def placed_def)
  have c: "box_range (placed (Box (14 / 3.28 + 2) (12 / 3.28 + 2) 0.1) (14 / 3.28 / 2, 12 / 3.28 / 2, - 0.05)
       [220, 220, 220, 255]) =
     Some ((- 1, 14 / 3.28 + 1), (- 1, 12 / 3.28 + 1), (- 0.1, 0))"
    by (simp add: box_range_def placed_def)
  have d: "- (7 / 3.28) < (- 1 :: real)" "- (6 / 3.28) < (- 1 :: real)"
    by simp_all
  have e: "\<not> footprint_within
       (placed (Box (14 / 3.28) (12 / 3.28) (10 / 3.28)) (0, 0, 10 / 3.28 / 2) [200, 150, 150, 255])
       (placed (Box (14 / 3.28 + 2) (12 / 3.28 + 2) 0.1) (14 / 3.28 / 2, 12 / 3.28 / 2, - 0.05)
          [220, 220, 220, 255])"
    unfolding footprint_within_def b c by simp
  show ?thesis
    by (intro conjI) (fact a b c d e)+
qed

end
